theory Spec2Isabelle
  imports Complex_Main "HOL-Library.Log_Nat"
begin

section \<open>Data model (core/types.ts)\<close>

text \<open>
  A JavaScript \<^verbatim>\<open>Date\<close> is the number of milliseconds since the epoch; it is
  modelled as an \<^typ>\<open>int\<close>, and comparing two dates compares these numbers.
  (The \<^verbatim>\<open>Invalid Date\<close> value is outside the model.)  An optional field
  \<^verbatim>\<open>f?: T\<close> is a \<^typ>\<open>'a option\<close>, \<^const>\<open>None\<close> standing for \<^verbatim>\<open>undefined\<close>.
\<close>

type_synonym Date = int

text \<open>
  A JavaScript \<^verbatim>\<open>number\<close> is a binary64 floating-point value.  The finite ones are
  rational numbers, and the model is the type \<^typ>\<open>rat\<close>; the arithmetic on them, which
  rounds every result to binary64, is defined with the cost engine below.
  (\<^verbatim>\<open>NaN\<close> and the infinities are outside the model.)
\<close>

type_synonym number = rat

datatype TimeEntryStatus = DRAFT | SUBMITTED | APPROVED | REJECTED | LOCKED | BILLED

text \<open>The enum is string-valued: each member's value is its own name.\<close>

fun statusString :: "TimeEntryStatus \<Rightarrow> string" where
  "statusString DRAFT = ''DRAFT''"
| "statusString SUBMITTED = ''SUBMITTED''"
| "statusString APPROVED = ''APPROVED''"
| "statusString REJECTED = ''REJECTED''"
| "statusString LOCKED = ''LOCKED''"
| "statusString BILLED = ''BILLED''"

datatype TimeCategoryType = BILLABLE | NON_BILLABLE | INTERNAL | TRAINING | MEETING

record TimeEntry =
  id :: string
  projectId :: string
  taskId :: "string option"
  developerId :: string
  clientId :: string
  startAt :: Date
  endAt :: Date
  durationMinutes :: number
  billable :: bool
  category :: TimeCategoryType
  tags :: "string list"
  status :: TimeEntryStatus
  notes_ :: "string option"
  approvedBy :: "string option"
  approvedAt :: "Date option"
  rejectedBy :: "string option"
  rejectedAt :: "Date option"
  rejectionReason :: "string option"
  lockedAt :: "Date option"
  billedAt :: "Date option"
  invoiceId :: "string option"
  createdAt :: Date
  updatedAt :: Date

text \<open>
  \<^verbatim>\<open>hourlyRate\<close> is a JavaScript number (a double); rate resolution never computes
  with it, so its type is left as a parameter.
\<close>

record 'num RateCard =
  id :: string
  developerId :: "string option"
  projectId :: "string option"
  clientId :: "string option"
  hourlyRate :: 'num
  currency :: string
  effectiveFrom :: Date
  effectiveTo :: "Date option"
  isActive :: bool
  createdAt :: Date
  updatedAt :: Date

text \<open>
  The workflow functions and \<^verbatim>\<open>isPeriodLocked\<close> take locks of the structural type
  \<^verbatim>\<open>{ periodStart: Date; periodEnd: Date; isActive: boolean }\<close>; a \<^verbatim>\<open>TimeLock\<close>
  has these three fields and more, so it is the extension of that record.
\<close>

record PeriodLock =
  periodStart :: Date
  periodEnd :: Date
  isActive :: bool

record TimeLock = PeriodLock +
  id :: string
  projectId :: "string option"
  clientId :: "string option"
  reason :: string
  lockedBy :: string
  lockedAt :: Date
  unlockedBy :: "string option"
  unlockedAt :: "Date option"

record CreateLockParams =
  projectId :: "string option"
  clientId :: "string option"
  periodStart :: Date
  periodEnd :: Date
  reason :: string
  lockedBy :: string

section \<open>Functions of date-fns used by the core\<close>

text \<open>
  The core imports two functions of the date-fns library (version 3 and later).
  \<^verbatim>\<open>differenceInMinutes(dateLeft, dateRight)\<close> divides the difference in
  milliseconds by 60000 and truncates towards zero.
  \<^verbatim>\<open>areIntervalsOverlapping(left, right, {inclusive})\<close> first orders the two end
  points of each interval and then compares: with \<^verbatim>\<open>inclusive: true\<close> the
  comparisons are non-strict, otherwise strict.  An interval \<^verbatim>\<open>{start, end}\<close> is the
  pair of its two instants.
\<close>

definition differenceInMinutes :: "Date \<Rightarrow> Date \<Rightarrow> int" where
  "differenceInMinutes dateLeft dateRight =
     (let diff = dateLeft - dateRight
      in if 0 \<le> diff then diff div 60000 else - ((- diff) div 60000))"

definition areIntervalsOverlapping :: "Date \<times> Date \<Rightarrow> Date \<times> Date \<Rightarrow> bool \<Rightarrow> bool" where
  "areIntervalsOverlapping intervalLeft intervalRight inclusive =
     (let leftStartTime = min (fst intervalLeft) (snd intervalLeft);
          leftEndTime = max (fst intervalLeft) (snd intervalLeft);
          rightStartTime = min (fst intervalRight) (snd intervalRight);
          rightEndTime = max (fst intervalRight) (snd intervalRight)
      in if inclusive
         then leftStartTime \<le> rightEndTime \<and> rightStartTime \<le> leftEndTime
         else leftStartTime < rightEndTime \<and> rightStartTime < leftEndTime)"

section \<open>Duration and overlap policy (core/policies.ts)\<close>

definition calculateDuration :: "Date \<Rightarrow> Date \<Rightarrow> int" where
  "calculateDuration start finish = \<bar>differenceInMinutes finish start\<bar>"

definition detectOverlap :: "'a TimeEntry_scheme \<Rightarrow> 'b TimeEntry_scheme \<Rightarrow> bool" where
  "detectOverlap entry1 entry2 =
     areIntervalsOverlapping (TimeEntry.startAt entry1, TimeEntry.endAt entry1)
       (TimeEntry.startAt entry2, TimeEntry.endAt entry2) False"

record ValidationResult =
  valid :: bool
  error :: "string option"

definition validateDuration :: "Date \<Rightarrow> Date \<Rightarrow> ValidationResult" where
  "validateDuration start finish =
     (let duration = calculateDuration start finish
      in if duration \<le> 0
         then \<lparr>valid = False, error = Some ''End time must be after start time''\<rparr>
         else if duration > 1440
         then \<lparr>valid = False, error = Some ''Time entry cannot exceed 24 hours''\<rparr>
         else if duration < 1
         then \<lparr>valid = False, error = Some ''Time entry must be at least 1 minute''\<rparr>
         else \<lparr>valid = True, error = None\<rparr>)"

definition canEditTimeEntry :: "TimeEntryStatus \<Rightarrow> bool" where
  "canEditTimeEntry s \<longleftrightarrow> s = DRAFT \<or> s = REJECTED"

definition canSubmitTimeEntry :: "TimeEntryStatus \<Rightarrow> bool" where
  "canSubmitTimeEntry s \<longleftrightarrow> s = DRAFT \<or> s = REJECTED"

definition canApproveTimeEntry :: "TimeEntryStatus \<Rightarrow> bool" where
  "canApproveTimeEntry s \<longleftrightarrow> s = SUBMITTED"

definition canRejectTimeEntry :: "TimeEntryStatus \<Rightarrow> bool" where
  "canRejectTimeEntry s \<longleftrightarrow> s = SUBMITTED \<or> s = APPROVED"

definition canLockTimeEntry :: "TimeEntryStatus \<Rightarrow> bool" where
  "canLockTimeEntry s \<longleftrightarrow> s = APPROVED"

definition canBillTimeEntry :: "TimeEntryStatus \<Rightarrow> bool" where
  "canBillTimeEntry s \<longleftrightarrow> s = LOCKED"

text \<open>\<^verbatim>\<open>locks.some(lock => lock.isActive && areIntervalsOverlapping(..., {inclusive: true}))\<close>\<close>

definition isPeriodLocked :: "Date \<Rightarrow> Date \<Rightarrow> 'a PeriodLock_scheme list \<Rightarrow> bool" where
  "isPeriodLocked start finish locks =
     list_ex (\<lambda>lock. PeriodLock.isActive lock \<and>
                areIntervalsOverlapping (start, finish)
                  (PeriodLock.periodStart lock, PeriodLock.periodEnd lock) True) locks"

section \<open>Status transition policy (core/policies.ts)\<close>


definition validTransitions :: "TimeEntryStatus \<Rightarrow> TimeEntryStatus list" where
  "validTransitions s =
     (case s of
        DRAFT \<Rightarrow> [SUBMITTED]
      | SUBMITTED \<Rightarrow> [APPROVED, REJECTED]
      | APPROVED \<Rightarrow> [LOCKED, REJECTED]
      | REJECTED \<Rightarrow> [DRAFT, SUBMITTED]
      | LOCKED \<Rightarrow> [BILLED]
      | BILLED \<Rightarrow> [])"

definition validateStatusTransition :: "TimeEntryStatus \<Rightarrow> TimeEntryStatus \<Rightarrow> ValidationResult" where
  "validateStatusTransition currentStatus newStatus =
     (let allowed = validTransitions currentStatus in
      if newStatus \<notin> set allowed
      then \<lparr>valid = False,
            error = Some (''Cannot transition from '' @ statusString currentStatus @
                          '' to '' @ statusString newStatus)\<rparr>
      else \<lparr>valid = True, error = None\<rparr>)"

section \<open>Errors (core/errors.ts)\<close>

text \<open>
  The error classes thrown by the core, with the data that their constructors receive.
  \<^verbatim>\<open>validateLockOverlap\<close> builds the message of its \<^verbatim>\<open>ConflictError\<close> from the
  period of the conflicting lock; the model keeps the two instants instead of the text.
\<close>

datatype TimeLogError =
    ValidationError string
  | ConflictError Date Date
  | PeriodLockedError Date Date
  | InvalidStatusTransitionError TimeEntryStatus TimeEntryStatus

section \<open>Workflow engine (core/workflows.ts)\<close>

record WorkflowContext =
  userId :: string
  userRole :: string
  timestamp :: Date

text \<open>
  The metadata bag of an audit log is an object literal; it is the list of its keys and
  values in the order written.  Status values are the enum's strings; a key whose
  value is \<^verbatim>\<open>undefined\<close> is still a key of the literal.
\<close>

datatype MetaValue = MString string | MUndefined

text \<open>The workflows return audit logs without \<^verbatim>\<open>id\<close> and \<^verbatim>\<open>createdAt\<close>.\<close>

record AuditLog =
  entityType :: string
  entityId :: string
  action :: string
  userId :: string
  metadata :: "(string \<times> MetaValue) list"

text \<open>
  The parameter objects.  The field \<^verbatim>\<open>context\<close> is called \<open>ctx\<close> here.  The five
  result interfaces all have the shape \<^verbatim>\<open>{ entries, auditLogs }\<close>.
\<close>

record 'a SubmitEntriesParams =
  entries :: "TimeEntry list"
  ctx :: WorkflowContext
  locks :: "'a PeriodLock_scheme list option"

record 'a ApproveEntriesParams =
  entries :: "TimeEntry list"
  ctx :: WorkflowContext
  locks :: "'a PeriodLock_scheme list option"

record RejectEntriesParams =
  entries :: "TimeEntry list"
  reason :: string
  ctx :: WorkflowContext

record LockEntriesParams =
  entries :: "TimeEntry list"
  reason :: "string option"
  ctx :: WorkflowContext

record BillEntriesParams =
  entries :: "TimeEntry list"
  invoiceId :: string
  ctx :: WorkflowContext

record EntriesResult =
  entries :: "TimeEntry list"
  auditLogs :: "AuditLog list"

text \<open>
  Every batch function is the same loop
  \<^verbatim>\<open>for (const entry of entries) { ...throw...; updatedEntries.push(..); auditLogs.push(..) }\<close>
  followed by \<^verbatim>\<open>return { entries: updatedEntries, auditLogs }\<close>.  The loop is
  \<open>forEntries\<close>, with the two arrays as accumulators; a \<^verbatim>\<open>throw\<close> in the body
  leaves the loop and the function with \<^const>\<open>Inl\<close>.  The body of each function is
  given separately: it yields the error thrown for the entry, or the pair pushed, whose
  components are the object literals \<^verbatim>\<open>updatedEntry\<close> (the spread \<^verbatim>\<open>...entry\<close> with the
  listed fields overwritten) and the audit log.
\<close>

fun forEntries ::
  "(TimeEntry \<Rightarrow> TimeLogError + TimeEntry \<times> AuditLog) \<Rightarrow> TimeEntry list \<Rightarrow>
   TimeEntry list \<Rightarrow> AuditLog list \<Rightarrow> TimeLogError + EntriesResult" where
  "forEntries body [] updatedEntries logs =
     Inr \<lparr>EntriesResult.entries = updatedEntries, auditLogs = logs\<rparr>"
| "forEntries body (entry # rest) updatedEntries logs =
     (case body entry of
        Inl err \<Rightarrow> Inl err
      | Inr (updatedEntry, auditLog) \<Rightarrow>
          forEntries body rest (updatedEntries @ [updatedEntry]) (logs @ [auditLog]))"

definition submitUpdatedEntry :: "WorkflowContext \<Rightarrow> TimeEntry \<Rightarrow> TimeEntry" where
  "submitUpdatedEntry context entry =
     entry\<lparr>TimeEntry.status := SUBMITTED,
           TimeEntry.updatedAt := timestamp context\<rparr>"

definition submitAuditLog :: "WorkflowContext \<Rightarrow> TimeEntry \<Rightarrow> AuditLog" where
  "submitAuditLog context entry =
     \<lparr>entityType = ''TimeEntry'',
      entityId = TimeEntry.id entry,
      action = ''SUBMIT'',
      userId = WorkflowContext.userId context,
      metadata = [(''userRole'', MString (userRole context)),
                  (''previousStatus'', MString (statusString (TimeEntry.status entry))),
                  (''newStatus'', MString (statusString SUBMITTED))]\<rparr>"

definition submitBody ::
  "WorkflowContext \<Rightarrow> 'a PeriodLock_scheme list \<Rightarrow> TimeEntry \<Rightarrow> TimeLogError + TimeEntry \<times> AuditLog" where
  "submitBody context lockList entry =
     (if \<not> canSubmitTimeEntry (TimeEntry.status entry)
      then Inl (InvalidStatusTransitionError (TimeEntry.status entry) SUBMITTED)
      else if isPeriodLocked (TimeEntry.startAt entry) (TimeEntry.endAt entry) lockList
      then Inl (PeriodLockedError (TimeEntry.startAt entry) (TimeEntry.endAt entry))
      else Inr (submitUpdatedEntry context entry, submitAuditLog context entry))"

definition submitTimeEntries :: "'a SubmitEntriesParams \<Rightarrow> TimeLogError + EntriesResult" where
  "submitTimeEntries params =
     forEntries
       (submitBody (SubmitEntriesParams.ctx params)
          (case SubmitEntriesParams.locks params of None \<Rightarrow> [] | Some l \<Rightarrow> l))
       (SubmitEntriesParams.entries params) [] []"

definition approveUpdatedEntry :: "WorkflowContext \<Rightarrow> TimeEntry \<Rightarrow> TimeEntry" where
  "approveUpdatedEntry context entry =
     entry\<lparr>TimeEntry.status := APPROVED,
           TimeEntry.approvedBy := Some (WorkflowContext.userId context),
           TimeEntry.approvedAt := Some (timestamp context),
           TimeEntry.updatedAt := timestamp context\<rparr>"

definition approveAuditLog :: "WorkflowContext \<Rightarrow> TimeEntry \<Rightarrow> AuditLog" where
  "approveAuditLog context entry =
     \<lparr>entityType = ''TimeEntry'',
      entityId = TimeEntry.id entry,
      action = ''APPROVE'',
      userId = WorkflowContext.userId context,
      metadata = [(''userRole'', MString (userRole context)),
                  (''previousStatus'', MString (statusString (TimeEntry.status entry))),
                  (''newStatus'', MString (statusString APPROVED))]\<rparr>"

definition approveBody ::
  "WorkflowContext \<Rightarrow> 'a PeriodLock_scheme list \<Rightarrow> TimeEntry \<Rightarrow> TimeLogError + TimeEntry \<times> AuditLog" where
  "approveBody context lockList entry =
     (if \<not> canApproveTimeEntry (TimeEntry.status entry)
      then Inl (InvalidStatusTransitionError (TimeEntry.status entry) APPROVED)
      else if isPeriodLocked (TimeEntry.startAt entry) (TimeEntry.endAt entry) lockList
      then Inl (PeriodLockedError (TimeEntry.startAt entry) (TimeEntry.endAt entry))
      else Inr (approveUpdatedEntry context entry, approveAuditLog context entry))"

definition approveTimeEntries :: "'a ApproveEntriesParams \<Rightarrow> TimeLogError + EntriesResult" where
  "approveTimeEntries params =
     forEntries
       (approveBody (ApproveEntriesParams.ctx params)
          (case ApproveEntriesParams.locks params of None \<Rightarrow> [] | Some l \<Rightarrow> l))
       (ApproveEntriesParams.entries params) [] []"

definition rejectUpdatedEntry :: "WorkflowContext \<Rightarrow> string \<Rightarrow> TimeEntry \<Rightarrow> TimeEntry" where
  "rejectUpdatedEntry context why entry =
     entry\<lparr>TimeEntry.status := REJECTED,
           TimeEntry.rejectedBy := Some (WorkflowContext.userId context),
           TimeEntry.rejectedAt := Some (timestamp context),
           TimeEntry.rejectionReason := Some why,
           TimeEntry.updatedAt := timestamp context\<rparr>"

definition rejectAuditLog :: "WorkflowContext \<Rightarrow> string \<Rightarrow> TimeEntry \<Rightarrow> AuditLog" where
  "rejectAuditLog context why entry =
     \<lparr>entityType = ''TimeEntry'',
      entityId = TimeEntry.id entry,
      action = ''REJECT'',
      userId = WorkflowContext.userId context,
      metadata = [(''userRole'', MString (userRole context)),
                  (''previousStatus'', MString (statusString (TimeEntry.status entry))),
                  (''newStatus'', MString (statusString REJECTED)),
                  (''reason'', MString why)]\<rparr>"

definition rejectBody ::
  "WorkflowContext \<Rightarrow> string \<Rightarrow> TimeEntry \<Rightarrow> TimeLogError + TimeEntry \<times> AuditLog" where
  "rejectBody context why entry =
     (if \<not> canRejectTimeEntry (TimeEntry.status entry)
      then Inl (InvalidStatusTransitionError (TimeEntry.status entry) REJECTED)
      else Inr (rejectUpdatedEntry context why entry, rejectAuditLog context why entry))"

definition rejectTimeEntries :: "RejectEntriesParams \<Rightarrow> TimeLogError + EntriesResult" where
  "rejectTimeEntries params =
     forEntries (rejectBody (RejectEntriesParams.ctx params) (RejectEntriesParams.reason params))
       (RejectEntriesParams.entries params) [] []"

definition lockUpdatedEntry :: "WorkflowContext \<Rightarrow> TimeEntry \<Rightarrow> TimeEntry" where
  "lockUpdatedEntry context entry =
     entry\<lparr>TimeEntry.status := LOCKED,
           TimeEntry.lockedAt := Some (timestamp context),
           TimeEntry.updatedAt := timestamp context\<rparr>"

definition lockAuditLog :: "WorkflowContext \<Rightarrow> string option \<Rightarrow> TimeEntry \<Rightarrow> AuditLog" where
  "lockAuditLog context why entry =
     \<lparr>entityType = ''TimeEntry'',
      entityId = TimeEntry.id entry,
      action = ''LOCK'',
      userId = WorkflowContext.userId context,
      metadata = [(''userRole'', MString (userRole context)),
                  (''previousStatus'', MString (statusString (TimeEntry.status entry))),
                  (''newStatus'', MString (statusString LOCKED)),
                  (''reason'', (case why of None \<Rightarrow> MUndefined | Some r \<Rightarrow> MString r))]\<rparr>"

definition lockBody ::
  "WorkflowContext \<Rightarrow> string option \<Rightarrow> TimeEntry \<Rightarrow> TimeLogError + TimeEntry \<times> AuditLog" where
  "lockBody context why entry =
     (if \<not> canLockTimeEntry (TimeEntry.status entry)
      then Inl (InvalidStatusTransitionError (TimeEntry.status entry) LOCKED)
      else Inr (lockUpdatedEntry context entry, lockAuditLog context why entry))"

definition lockTimeEntries :: "LockEntriesParams \<Rightarrow> TimeLogError + EntriesResult" where
  "lockTimeEntries params =
     forEntries (lockBody (LockEntriesParams.ctx params) (LockEntriesParams.reason params))
       (LockEntriesParams.entries params) [] []"

definition billUpdatedEntry :: "WorkflowContext \<Rightarrow> string \<Rightarrow> TimeEntry \<Rightarrow> TimeEntry" where
  "billUpdatedEntry context invoice entry =
     entry\<lparr>TimeEntry.status := BILLED,
           TimeEntry.billedAt := Some (timestamp context),
           TimeEntry.invoiceId := Some invoice,
           TimeEntry.updatedAt := timestamp context\<rparr>"

definition billAuditLog :: "WorkflowContext \<Rightarrow> string \<Rightarrow> TimeEntry \<Rightarrow> AuditLog" where
  "billAuditLog context invoice entry =
     \<lparr>entityType = ''TimeEntry'',
      entityId = TimeEntry.id entry,
      action = ''BILL'',
      userId = WorkflowContext.userId context,
      metadata = [(''userRole'', MString (userRole context)),
                  (''previousStatus'', MString (statusString (TimeEntry.status entry))),
                  (''newStatus'', MString (statusString BILLED)),
                  (''invoiceId'', MString invoice)]\<rparr>"

definition billBody ::
  "WorkflowContext \<Rightarrow> string \<Rightarrow> TimeEntry \<Rightarrow> TimeLogError + TimeEntry \<times> AuditLog" where
  "billBody context invoice entry =
     (if TimeEntry.status entry \<noteq> LOCKED
      then Inl (InvalidStatusTransitionError (TimeEntry.status entry) BILLED)
      else Inr (billUpdatedEntry context invoice entry, billAuditLog context invoice entry))"

definition billTimeEntries :: "BillEntriesParams \<Rightarrow> TimeLogError + EntriesResult" where
  "billTimeEntries params =
     forEntries (billBody (BillEntriesParams.ctx params) (BillEntriesParams.invoiceId params))
       (BillEntriesParams.entries params) [] []"

section \<open>Lock conflict model (core/locks.ts)\<close>

text \<open>
  A scope test \<^verbatim>\<open>a && a === b\<close> on optional strings needs \<^verbatim>\<open>a\<close> to be truthy:
  present and not the empty string.
\<close>

definition truthy :: "string option \<Rightarrow> bool" where
  "truthy v = (case v of None \<Rightarrow> False | Some str \<Rightarrow> str \<noteq> [])"

text \<open>
  The three checks filter the active locks and then run
  \<^verbatim>\<open>for (const lock of activeLocks) { if (!scopeMatch) continue; if (overlaps) return/throw }\<close>:
  the first active lock that matches the scope and overlaps decides, which is
  \<^const>\<open>find\<close> on the filtered list.
\<close>

definition checkEntryLockConflict :: "TimeEntry \<Rightarrow> TimeLock list \<Rightarrow> TimeLock option" where
  "checkEntryLockConflict entry lockList =
     (let activeLocks = filter (\<lambda>lock. PeriodLock.isActive lock) lockList
      in find (\<lambda>lock.
           ((truthy (TimeLock.projectId lock) \<and>
               TimeLock.projectId lock = Some (TimeEntry.projectId entry)) \<or>
            (truthy (TimeLock.clientId lock) \<and>
               TimeLock.clientId lock = Some (TimeEntry.clientId entry))) \<and>
           areIntervalsOverlapping (TimeEntry.startAt entry, TimeEntry.endAt entry)
             (PeriodLock.periodStart lock, PeriodLock.periodEnd lock) True) activeLocks)"

text \<open>The last parameter has the default value \<^verbatim>\<open>[]\<close>.\<close>

definition checkPeriodLockConflict ::
  "Date \<Rightarrow> Date \<Rightarrow> string option \<Rightarrow> string option \<Rightarrow> TimeLock list option \<Rightarrow>
   TimeLock option" where
  "checkPeriodLockConflict pStart pEnd project client lockList =
     (let activeLocks = filter (\<lambda>lock. PeriodLock.isActive lock)
                          (case lockList of None \<Rightarrow> [] | Some l \<Rightarrow> l)
      in find (\<lambda>lock.
           ((truthy project \<and> TimeLock.projectId lock = project) \<or>
            (truthy client \<and> TimeLock.clientId lock = client)) \<and>
           areIntervalsOverlapping (pStart, pEnd)
             (PeriodLock.periodStart lock, PeriodLock.periodEnd lock) True) activeLocks)"

definition validateLockOverlap :: "CreateLockParams \<Rightarrow> TimeLock list \<Rightarrow> TimeLogError + unit" where
  "validateLockOverlap newLock existingLocks =
     (let activeLocks = filter (\<lambda>lock. PeriodLock.isActive lock) existingLocks
      in case find (\<lambda>lock.
                ((truthy (CreateLockParams.projectId newLock) \<and>
                    TimeLock.projectId lock = CreateLockParams.projectId newLock) \<or>
                 (truthy (CreateLockParams.clientId newLock) \<and>
                    TimeLock.clientId lock = CreateLockParams.clientId newLock)) \<and>
                areIntervalsOverlapping
                  (CreateLockParams.periodStart newLock, CreateLockParams.periodEnd newLock)
                  (PeriodLock.periodStart lock, PeriodLock.periodEnd lock) False) activeLocks of
           Some lock \<Rightarrow>
             Inl (ConflictError (PeriodLock.periodStart lock) (PeriodLock.periodEnd lock))
         | None \<Rightarrow> Inr ())"

section \<open>Rate resolution (core/finance.ts)\<close>

text \<open>
  \<^verbatim>\<open>cards.sort((a, b) => b.effectiveFrom.getTime() - a.effectiveFrom.getTime())[0]\<close>:
  the array sort is stable and the comparator orders by descending
  \<^verbatim>\<open>effectiveFrom\<close>; element 0 of an empty array is \<^verbatim>\<open>undefined\<close>.  The third
  parameter \<^verbatim>\<open>atDate\<close> defaults to the current time; the model takes it as given.
\<close>

definition latestFirst :: "'num RateCard list \<Rightarrow> 'num RateCard option" where
  "latestFirst cards =
     (case sort_key (\<lambda>card. - RateCard.effectiveFrom card) cards of
        [] \<Rightarrow> None
      | c # _ \<Rightarrow> Some c)"

definition resolveEffectiveRate ::
  "TimeEntry \<Rightarrow> 'num RateCard list \<Rightarrow> Date \<Rightarrow> 'num RateCard option" where
  "resolveEffectiveRate entry rateCards atDate =
     (let activeCards = filter (\<lambda>card.
            if \<not> RateCard.isActive card then False
            else if RateCard.effectiveFrom card > atDate then False
            else if (case RateCard.effectiveTo card of None \<Rightarrow> False | Some t \<Rightarrow> t < atDate)
            then False
            else True) rateCards;
          projectRate = latestFirst
            (filter (\<lambda>card. RateCard.projectId card = Some (TimeEntry.projectId entry))
               activeCards)
      in case projectRate of
           Some rate \<Rightarrow> Some rate
         | None \<Rightarrow>
            (let clientRate = latestFirst
                   (filter (\<lambda>card. RateCard.clientId card = Some (TimeEntry.clientId entry))
                      activeCards)
             in case clientRate of
                  Some rate \<Rightarrow> Some rate
                | None \<Rightarrow>
                    latestFirst
                      (filter (\<lambda>card.
                           RateCard.developerId card = Some (TimeEntry.developerId entry) \<and>
                           \<not> truthy (RateCard.projectId card) \<and>
                           \<not> truthy (RateCard.clientId card)) activeCards)))"

section \<open>Cost engine (core/finance.ts, core/policies.ts)\<close>

subsection \<open>Arithmetic on numbers\<close>

text \<open>
  Every arithmetic operation of JavaScript returns the exact result rounded to the
  nearest binary64 value, a tie going to the value with an even significand.  A
  positive \<open>x\<close> between \<open>pow2 e\<close> (inclusive) and \<open>pow2 (e + 1)\<close> (exclusive) has the
  binary exponent \<open>e\<close>.  Binary64 keeps 53 significant bits, so its values near \<open>x\<close>
  are the multiples of the quantum \<open>pow2 (e - 52)\<close>, and of \<open>pow2 (- 1074)\<close> below the
  normal range, which starts at \<open>pow2 (- 1022)\<close>.  Results whose magnitude reaches
  \<open>pow2 1024\<close>, which JavaScript turns into an infinity, are outside the model.
  \<^verbatim>\<open>Math.round\<close> is exact: the nearest integer, a tie going up.
\<close>

definition pow2 :: "int \<Rightarrow> rat" where
  "pow2 e = (if 0 \<le> e then 2 ^ nat e else 1 / 2 ^ nat (- e))"

definition binaryExponent :: "rat \<Rightarrow> int" where
  "binaryExponent x =
     (if 1 \<le> x then bitlen \<lfloor>x\<rfloor> - 1 else - bitlen (\<lceil>1 / x\<rceil> - 1))"

definition roundTiesToEven :: "rat \<Rightarrow> int" where
  "roundTiesToEven y =
     (let f = \<lfloor>y\<rfloor>; d = y - of_int f
      in if d < 1 / 2 then f else if 1 / 2 < d then f + 1 else if even f then f else f + 1)"

definition binary64 :: "rat \<Rightarrow> number" where
  "binary64 x =
     (if x = 0 then 0
      else let quantum = pow2 (max (binaryExponent \<bar>x\<bar>) (- 1022) - 52)
           in of_int (roundTiesToEven (x / quantum)) * quantum)"


subsection \<open>Rounding a duration\<close>

text \<open>The enum \<^verbatim>\<open>RoundingInterval\<close> is numeric; \<open>intervalMinutes\<close> gives the values.\<close>

datatype RoundingInterval = NONE | ONE_MINUTE | FIVE_MINUTES | SIX_MINUTES | FIFTEEN_MINUTES



subsection \<open>Costs of entries\<close>

record EntryCost =
  entryId :: string
  projectId :: string
  developerId :: string
  originalMinutes :: number
  roundedMinutes :: number
  hourlyRate :: number
  currency :: string
  cost :: number

record CostCalculationParams =
  entries :: "TimeEntry list"
  rateCards :: "number RateCard list"
  roundingInterval :: "RoundingInterval option"
  atDate :: "Date option"




section \<open>Fixtures of the test suite\<close>

text \<open>
  The entry and the context that the workflow tests start from
  (\<^verbatim>\<open>2024-03-10T09:00Z\<close> to \<^verbatim>\<open>17:00Z\<close>, context time \<^verbatim>\<open>2024-03-15T10:00Z\<close>),
  and the project lock of the lock tests (\<^verbatim>\<open>2024-03-01\<close> to \<^verbatim>\<open>2024-03-31\<close>).
\<close>

definition sampleEntry :: TimeEntry where
  "sampleEntry =
     \<lparr>TimeEntry.id = ''entry-1'', projectId = ''project-1'', taskId = Some ''task-1'',
      developerId = ''dev-1'', clientId = ''client-1'',
      startAt = 1710061200000, endAt = 1710090000000, durationMinutes = 480,
      billable = True, category = BILLABLE, tags = [''frontend''], status = DRAFT,
      notes_ = Some ''Working on feature'', approvedBy = None, approvedAt = None,
      rejectedBy = None, rejectedAt = None, rejectionReason = None, lockedAt = None,
      billedAt = None, invoiceId = None,
      createdAt = 1710090000000, updatedAt = 1710090000000\<rparr>"

definition sampleContext :: WorkflowContext where
  "sampleContext =
     \<lparr>WorkflowContext.userId = ''user-123'', userRole = ''manager'',
      timestamp = 1710496800000\<rparr>"

definition sampleLock :: TimeLock where
  "sampleLock =
     \<lparr>PeriodLock.periodStart = 1709251200000, periodEnd = 1711843200000, isActive = True,
      TimeLock.id = ''lock-1'', projectId = Some ''project-1'', clientId = None,
      reason = ''Monthly closing'', lockedBy = ''admin-1'', lockedAt = 1711929600000,
      unlockedBy = None, unlockedAt = None\<rparr>"

text \<open>
  The rate cards of the finance tests: developer defaults for \<^verbatim>\<open>dev-1\<close> (100) and
  \<^verbatim>\<open>dev-2\<close> (120) from \<^verbatim>\<open>2024-01-01\<close>, a rate for \<^verbatim>\<open>project-1\<close> (150) from
  \<^verbatim>\<open>2024-02-01\<close> and a rate for \<^verbatim>\<open>client-1\<close> (130) from \<^verbatim>\<open>2024-01-15\<close>.  The test
  objects leave \<^verbatim>\<open>createdAt\<close> and \<^verbatim>\<open>updatedAt\<close> out; they are 0 here.
\<close>

definition sampleRateCards :: "int RateCard list" where
  "sampleRateCards =
     [\<lparr>RateCard.id = ''rate-1'', developerId = Some ''dev-1'', projectId = None,
       clientId = None, hourlyRate = 100, currency = ''USD'',
       effectiveFrom = 1704067200000, effectiveTo = None, isActive = True,
       createdAt = 0, updatedAt = 0\<rparr>,
      \<lparr>RateCard.id = ''rate-2'', developerId = Some ''dev-2'', projectId = None,
       clientId = None, hourlyRate = 120, currency = ''USD'',
       effectiveFrom = 1704067200000, effectiveTo = None, isActive = True,
       createdAt = 0, updatedAt = 0\<rparr>,
      \<lparr>RateCard.id = ''rate-3'', developerId = None, projectId = Some ''project-1'',
       clientId = None, hourlyRate = 150, currency = ''USD'',
       effectiveFrom = 1706745600000, effectiveTo = None, isActive = True,
       createdAt = 0, updatedAt = 0\<rparr>,
      \<lparr>RateCard.id = ''rate-4'', developerId = Some ''dev-3'', projectId = None,
       clientId = Some ''client-1'', hourlyRate = 130, currency = ''USD'',
       effectiveFrom = 1705276800000, effectiveTo = None, isActive = True,
       createdAt = 0, updatedAt = 0\<rparr>]"

text \<open>
  The project rate card of the finance tests (\<^verbatim>\<open>rate-3\<close>, for \<^verbatim>\<open>project-1\<close>, from
  \<^verbatim>\<open>2024-02-01\<close>) as a card of numbers, with the hourly rate left open.
\<close>

definition projectRate :: "number \<Rightarrow> number RateCard" where
  "projectRate rate =
     \<lparr>RateCard.id = ''rate-3'', developerId = None, projectId = Some ''project-1'',
      clientId = None, hourlyRate = rate, currency = ''USD'',
      effectiveFrom = 1706745600000, effectiveTo = None, isActive = True,
      createdAt = 0, updatedAt = 0\<rparr>"

section \<open>Properties\<close>

subsection \<open>The transition table\<close>

text \<open>
  Claim C1.  \<^verbatim>\<open>validateStatusTransition(from, to)\<close> is valid exactly for the eight
  pairs of the transition table (nothing leaves \<^const>\<open>BILLED\<close>); when it is invalid the
  error is exactly \<^verbatim>\<open>Cannot transition from {from} to {to}\<close>, and a valid result
  carries no error.  In particular \<^verbatim>\<open>DRAFT \<rightarrow> APPROVED\<close> is invalid with that
  message and \<^verbatim>\<open>LOCKED \<rightarrow> BILLED\<close> is valid.
\<close>

theorem validateStatusTransition_table:
  "(valid (validateStatusTransition f t) \<longleftrightarrow>
      (f, t) \<in> {(DRAFT, SUBMITTED), (SUBMITTED, APPROVED), (SUBMITTED, REJECTED),
                 (APPROVED, LOCKED), (APPROVED, REJECTED), (REJECTED, DRAFT),
                 (REJECTED, SUBMITTED), (LOCKED, BILLED)})
   \<and> (\<not> valid (validateStatusTransition f t) \<longrightarrow>
        error (validateStatusTransition f t) =
          Some (''Cannot transition from '' @ statusString f @ '' to '' @ statusString t))
   \<and> (valid (validateStatusTransition f t) \<longrightarrow> error (validateStatusTransition f t) = None)
   \<and> validateStatusTransition DRAFT APPROVED =
        \<lparr>valid = False, error = Some ''Cannot transition from DRAFT to APPROVED''\<rparr>
   \<and> validateStatusTransition LOCKED BILLED = \<lparr>valid = True, error = None\<rparr>"
  by (cases f; cases t)
     (simp_all add: validateStatusTransition_def validTransitions_def)

theorem validateStatusTransition_table_witness:
  "\<not> valid (validateStatusTransition BILLED APPROVED)
   \<and> error (validateStatusTransition BILLED APPROVED) =
        Some ''Cannot transition from BILLED to APPROVED''
   \<and> valid (validateStatusTransition REJECTED DRAFT)
   \<and> error (validateStatusTransition REJECTED DRAFT) = None"
  using validateStatusTransition_table [of BILLED APPROVED]
        validateStatusTransition_table [of REJECTED DRAFT]
  by simp

subsection \<open>Duration bounds\<close>

lemma calculateDuration_forward:
  "start \<le> finish \<Longrightarrow> calculateDuration start finish = (finish - start) div 60000"
  by (simp add: calculateDuration_def differenceInMinutes_def Let_def pos_imp_zdiv_nonneg_iff)

text \<open>
  Claim C4, as stated, fails twice.  \<^verbatim>\<open>calculateDuration\<close> takes the absolute
  value of the difference, so an end one hour \<^emph>\<open>before\<close> the start has duration 60 and
  is accepted; and the duration is counted in whole minutes, so an end 30 seconds after
  the start has duration 0 and is rejected although the end is after the start and the
  duration does not exceed 1440.
\<close>

theorem validateDuration_counterexample:
  "(0::int) \<le> 3600000
   \<and> validateDuration 3600000 0 = \<lparr>valid = True, error = None\<rparr>
   \<and> (0::int) < 30000 \<and> calculateDuration 0 30000 \<le> 1440
   \<and> validateDuration 0 30000 =
        \<lparr>valid = False, error = Some ''End time must be after start time''\<rparr>"
  by (simp add: validateDuration_def calculateDuration_def differenceInMinutes_def)

text \<open>
  Claim C4, amended.  For an end that is not before the start:
  \<^item> when the end equals the start the result is invalid with
    \<^verbatim>\<open>End time must be after start time\<close>;
  \<^item> when the end is after the start by less than one full minute the result is
    invalid;
  \<^item> when the end is after the start and the duration in whole minutes exceeds 1440
    the result is invalid with \<^verbatim>\<open>Time entry cannot exceed 24 hours\<close>;
  \<^item> when the end is at least one minute after the start and the duration in whole
    minutes is at most 1440 the result is valid.
\<close>

theorem validateDuration_forward:
  "(finish = start \<longrightarrow>
      validateDuration start finish =
        \<lparr>valid = False, error = Some ''End time must be after start time''\<rparr>)
   \<and> (start < finish \<and> finish - start < 60000 \<longrightarrow>
      \<not> valid (validateDuration start finish))
   \<and> (start < finish \<and> calculateDuration start finish > 1440 \<longrightarrow>
      validateDuration start finish =
        \<lparr>valid = False, error = Some ''Time entry cannot exceed 24 hours''\<rparr>)
   \<and> (start + 60000 \<le> finish \<and> calculateDuration start finish \<le> 1440 \<longrightarrow>
      validateDuration start finish = \<lparr>valid = True, error = None\<rparr>)"
proof (intro conjI impI)
  assume "finish = start"
  then have "calculateDuration start finish = 0"
    by (simp add: calculateDuration_forward)
  then show "validateDuration start finish =
        \<lparr>valid = False, error = Some ''End time must be after start time''\<rparr>"
    by (simp add: validateDuration_def)
next
  assume "start < finish \<and> finish - start < 60000"
  then have "calculateDuration start finish = 0"
    by (simp add: calculateDuration_forward)
  then show "\<not> valid (validateDuration start finish)"
    by (simp add: validateDuration_def)
next
  assume "start < finish \<and> calculateDuration start finish > 1440"
  then show "validateDuration start finish =
        \<lparr>valid = False, error = Some ''Time entry cannot exceed 24 hours''\<rparr>"
    by (simp add: validateDuration_def)
next
  assume a: "start + 60000 \<le> finish \<and> calculateDuration start finish \<le> 1440"
  then have "1 \<le> (finish - start) div 60000"
    using zdiv_mono1 [of 60000 "finish - start" 60000] by simp
  with a have "1 \<le> calculateDuration start finish"
    by (simp add: calculateDuration_forward)
  with a show "validateDuration start finish = \<lparr>valid = True, error = None\<rparr>"
    by (simp add: validateDuration_def)
qed

theorem validateDuration_forward_witness:
  "validateDuration 0 0 = \<lparr>valid = False, error = Some ''End time must be after start time''\<rparr>
   \<and> \<not> valid (validateDuration 0 30000)
   \<and> validateDuration 0 90000000 =
        \<lparr>valid = False, error = Some ''Time entry cannot exceed 24 hours''\<rparr>
   \<and> validateDuration 0 3600000 = \<lparr>valid = True, error = None\<rparr>"
proof -
  have d1: "calculateDuration 0 90000000 > 1440"
    by (simp add: calculateDuration_def differenceInMinutes_def)
  have d2: "calculateDuration 0 3600000 \<le> 1440"
    by (simp add: calculateDuration_def differenceInMinutes_def)
  show ?thesis
    using d1 d2
      validateDuration_forward [where start = 0 and finish = 0]
      validateDuration_forward [where start = 0 and finish = 30000]
      validateDuration_forward [where start = 0 and finish = 90000000]
      validateDuration_forward [where start = 0 and finish = 3600000]
    by simp
qed

subsection \<open>Fail-fast batches\<close>

text \<open>
  The loop with a body that succeeds on every entry returns the pushed pairs in input
  order; with a body that throws on some entry, after succeeding on all entries before
  it, the loop returns that error and nothing else.
\<close>

lemma forEntries_pass:
  assumes "\<And>e. e \<in> set es \<Longrightarrow> body e = Inr (f e, g e)"
  shows "forEntries body es us ls =
           Inr \<lparr>EntriesResult.entries = us @ map f es, auditLogs = ls @ map g es\<rparr>"
  using assms by (induction es arbitrary: us ls) simp_all

lemma forEntries_fail:
  assumes "\<And>x. x \<in> set pre \<Longrightarrow> \<exists>p. body x = Inr p" and "body e = Inl err"
  shows "forEntries body (pre @ e # post) us ls = Inl err"
  using assms
proof (induction pre arbitrary: us ls)
  case Nil
  then show ?case by simp
next
  case (Cons x pre)
  from Cons.prems(1) [of x] obtain u l where "body x = Inr (u, l)" by auto
  with Cons show ?case by simp
qed

lemma submitTimeEntries_pass:
  "(\<forall>e \<in> set es. (canSubmitTimeEntry (TimeEntry.status e) \<and>
          \<not> isPeriodLocked (TimeEntry.startAt e) (TimeEntry.endAt e)
              (case lk of None \<Rightarrow> [] | Some l \<Rightarrow> l))) \<longrightarrow>
      submitTimeEntries \<lparr>SubmitEntriesParams.entries = es, ctx = c, locks = lk\<rparr> =
        Inr \<lparr>EntriesResult.entries = map (submitUpdatedEntry c) es,
             auditLogs = map (submitAuditLog c) es\<rparr>"
  unfolding submitTimeEntries_def
  by (auto intro!: forEntries_pass [where us = "[]" and ls = "[]", simplified]
        simp: submitBody_def)

lemma submitTimeEntries_fail:
  "(\<forall>x \<in> set pre. (canSubmitTimeEntry (TimeEntry.status x) \<and>
          \<not> isPeriodLocked (TimeEntry.startAt x) (TimeEntry.endAt x)
              (case lk of None \<Rightarrow> [] | Some l \<Rightarrow> l))) \<and>
      \<not> (canSubmitTimeEntry (TimeEntry.status e) \<and>
          \<not> isPeriodLocked (TimeEntry.startAt e) (TimeEntry.endAt e)
              (case lk of None \<Rightarrow> [] | Some l \<Rightarrow> l)) \<longrightarrow>
      submitTimeEntries
          \<lparr>SubmitEntriesParams.entries = (pre @ e # post), ctx = c, locks = lk\<rparr> =
        Inl (if \<not> canSubmitTimeEntry (TimeEntry.status e)
             then InvalidStatusTransitionError (TimeEntry.status e) SUBMITTED
             else PeriodLockedError (TimeEntry.startAt e) (TimeEntry.endAt e))"
  unfolding submitTimeEntries_def
  by (auto intro!: forEntries_fail simp: submitBody_def)

lemma approveTimeEntries_pass:
  "(\<forall>e \<in> set es. (canApproveTimeEntry (TimeEntry.status e) \<and>
          \<not> isPeriodLocked (TimeEntry.startAt e) (TimeEntry.endAt e)
              (case lk of None \<Rightarrow> [] | Some l \<Rightarrow> l))) \<longrightarrow>
      approveTimeEntries \<lparr>ApproveEntriesParams.entries = es, ctx = c, locks = lk\<rparr> =
        Inr \<lparr>EntriesResult.entries = map (approveUpdatedEntry c) es,
             auditLogs = map (approveAuditLog c) es\<rparr>"
  unfolding approveTimeEntries_def
  by (auto intro!: forEntries_pass [where us = "[]" and ls = "[]", simplified]
        simp: approveBody_def)

lemma approveTimeEntries_fail:
  "(\<forall>x \<in> set pre. (canApproveTimeEntry (TimeEntry.status x) \<and>
          \<not> isPeriodLocked (TimeEntry.startAt x) (TimeEntry.endAt x)
              (case lk of None \<Rightarrow> [] | Some l \<Rightarrow> l))) \<and>
      \<not> (canApproveTimeEntry (TimeEntry.status e) \<and>
          \<not> isPeriodLocked (TimeEntry.startAt e) (TimeEntry.endAt e)
              (case lk of None \<Rightarrow> [] | Some l \<Rightarrow> l)) \<longrightarrow>
      approveTimeEntries
          \<lparr>ApproveEntriesParams.entries = (pre @ e # post), ctx = c, locks = lk\<rparr> =
        Inl (if \<not> canApproveTimeEntry (TimeEntry.status e)
             then InvalidStatusTransitionError (TimeEntry.status e) APPROVED
             else PeriodLockedError (TimeEntry.startAt e) (TimeEntry.endAt e))"
  unfolding approveTimeEntries_def
  by (auto intro!: forEntries_fail simp: approveBody_def)

lemma rejectTimeEntries_pass:
  "(\<forall>e \<in> set es. canRejectTimeEntry (TimeEntry.status e)) \<longrightarrow>
      rejectTimeEntries \<lparr>RejectEntriesParams.entries = es, reason = why, ctx = c\<rparr> =
        Inr \<lparr>EntriesResult.entries = map (rejectUpdatedEntry c why) es,
             auditLogs = map (rejectAuditLog c why) es\<rparr>"
  unfolding rejectTimeEntries_def
  by (auto intro!: forEntries_pass [where us = "[]" and ls = "[]", simplified]
        simp: rejectBody_def)

lemma rejectTimeEntries_fail:
  "(\<forall>x \<in> set pre. canRejectTimeEntry (TimeEntry.status x)) \<and>
      \<not> canRejectTimeEntry (TimeEntry.status e) \<longrightarrow>
      rejectTimeEntries
          \<lparr>RejectEntriesParams.entries = (pre @ e # post), reason = why, ctx = c\<rparr> =
        Inl (InvalidStatusTransitionError (TimeEntry.status e) REJECTED)"
  unfolding rejectTimeEntries_def
  by (auto intro!: forEntries_fail simp: rejectBody_def)

lemma lockTimeEntries_pass:
  "(\<forall>e \<in> set es. canLockTimeEntry (TimeEntry.status e)) \<longrightarrow>
      lockTimeEntries \<lparr>LockEntriesParams.entries = es, reason = lockReason, ctx = c\<rparr> =
        Inr \<lparr>EntriesResult.entries = map (lockUpdatedEntry c) es,
             auditLogs = map (lockAuditLog c lockReason) es\<rparr>"
  unfolding lockTimeEntries_def
  by (auto intro!: forEntries_pass [where us = "[]" and ls = "[]", simplified]
        simp: lockBody_def)

lemma lockTimeEntries_fail:
  "(\<forall>x \<in> set pre. canLockTimeEntry (TimeEntry.status x)) \<and>
      \<not> canLockTimeEntry (TimeEntry.status e) \<longrightarrow>
      lockTimeEntries
          \<lparr>LockEntriesParams.entries = (pre @ e # post), reason = lockReason, ctx = c\<rparr> =
        Inl (InvalidStatusTransitionError (TimeEntry.status e) LOCKED)"
  unfolding lockTimeEntries_def
  by (auto intro!: forEntries_fail simp: lockBody_def)

lemma billTimeEntries_pass:
  "(\<forall>e \<in> set es. TimeEntry.status e = LOCKED) \<longrightarrow>
      billTimeEntries \<lparr>BillEntriesParams.entries = es, invoiceId = invoice, ctx = c\<rparr> =
        Inr \<lparr>EntriesResult.entries = map (billUpdatedEntry c invoice) es,
             auditLogs = map (billAuditLog c invoice) es\<rparr>"
  unfolding billTimeEntries_def
  by (auto intro!: forEntries_pass [where us = "[]" and ls = "[]", simplified]
        simp: billBody_def)

lemma billTimeEntries_fail:
  "(\<forall>x \<in> set pre. TimeEntry.status x = LOCKED) \<and>
      \<not> TimeEntry.status e = LOCKED \<longrightarrow>
      billTimeEntries
          \<lparr>BillEntriesParams.entries = (pre @ e # post), invoiceId = invoice, ctx = c\<rparr> =
        Inl (InvalidStatusTransitionError (TimeEntry.status e) BILLED)"
  unfolding billTimeEntries_def
  by (auto intro!: forEntries_fail simp: billBody_def)

text \<open>
  Claim C2.  For each of the five batch functions: when every entry passes the guard
  (and, for submit and approve, is not in a locked period) the call returns one updated
  entry and one audit log per input entry, in input order; when the entries before
  \<open>e\<close> pass and \<open>e\<close> does not, the call throws the error of \<open>e\<close> (the guard is
  tested before the lock) whatever follows \<open>e\<close>, and the result is only that error:
  no entries and no audit logs, not even for the entries before \<open>e\<close>.
\<close>

theorem batch_fail_fast:
  "((\<forall>e \<in> set es. (canSubmitTimeEntry (TimeEntry.status e) \<and>
          \<not> isPeriodLocked (TimeEntry.startAt e) (TimeEntry.endAt e)
              (case lk of None \<Rightarrow> [] | Some l \<Rightarrow> l))) \<longrightarrow>
      submitTimeEntries \<lparr>SubmitEntriesParams.entries = es, ctx = c, locks = lk\<rparr> =
        Inr \<lparr>EntriesResult.entries = map (submitUpdatedEntry c) es,
             auditLogs = map (submitAuditLog c) es\<rparr>)
   \<and> ((\<forall>x \<in> set pre. (canSubmitTimeEntry (TimeEntry.status x) \<and>
          \<not> isPeriodLocked (TimeEntry.startAt x) (TimeEntry.endAt x)
              (case lk of None \<Rightarrow> [] | Some l \<Rightarrow> l))) \<and>
      \<not> (canSubmitTimeEntry (TimeEntry.status e) \<and>
          \<not> isPeriodLocked (TimeEntry.startAt e) (TimeEntry.endAt e)
              (case lk of None \<Rightarrow> [] | Some l \<Rightarrow> l)) \<longrightarrow>
      submitTimeEntries
          \<lparr>SubmitEntriesParams.entries = (pre @ e # post), ctx = c, locks = lk\<rparr> =
        Inl (if \<not> canSubmitTimeEntry (TimeEntry.status e)
             then InvalidStatusTransitionError (TimeEntry.status e) SUBMITTED
             else PeriodLockedError (TimeEntry.startAt e) (TimeEntry.endAt e)))
   \<and> ((\<forall>e \<in> set es. (canApproveTimeEntry (TimeEntry.status e) \<and>
          \<not> isPeriodLocked (TimeEntry.startAt e) (TimeEntry.endAt e)
              (case lk of None \<Rightarrow> [] | Some l \<Rightarrow> l))) \<longrightarrow>
      approveTimeEntries \<lparr>ApproveEntriesParams.entries = es, ctx = c, locks = lk\<rparr> =
        Inr \<lparr>EntriesResult.entries = map (approveUpdatedEntry c) es,
             auditLogs = map (approveAuditLog c) es\<rparr>)
   \<and> ((\<forall>x \<in> set pre. (canApproveTimeEntry (TimeEntry.status x) \<and>
          \<not> isPeriodLocked (TimeEntry.startAt x) (TimeEntry.endAt x)
              (case lk of None \<Rightarrow> [] | Some l \<Rightarrow> l))) \<and>
      \<not> (canApproveTimeEntry (TimeEntry.status e) \<and>
          \<not> isPeriodLocked (TimeEntry.startAt e) (TimeEntry.endAt e)
              (case lk of None \<Rightarrow> [] | Some l \<Rightarrow> l)) \<longrightarrow>
      approveTimeEntries
          \<lparr>ApproveEntriesParams.entries = (pre @ e # post), ctx = c, locks = lk\<rparr> =
        Inl (if \<not> canApproveTimeEntry (TimeEntry.status e)
             then InvalidStatusTransitionError (TimeEntry.status e) APPROVED
             else PeriodLockedError (TimeEntry.startAt e) (TimeEntry.endAt e)))
   \<and> ((\<forall>e \<in> set es. canRejectTimeEntry (TimeEntry.status e)) \<longrightarrow>
      rejectTimeEntries \<lparr>RejectEntriesParams.entries = es, reason = why, ctx = c\<rparr> =
        Inr \<lparr>EntriesResult.entries = map (rejectUpdatedEntry c why) es,
             auditLogs = map (rejectAuditLog c why) es\<rparr>)
   \<and> ((\<forall>x \<in> set pre. canRejectTimeEntry (TimeEntry.status x)) \<and>
      \<not> canRejectTimeEntry (TimeEntry.status e) \<longrightarrow>
      rejectTimeEntries
          \<lparr>RejectEntriesParams.entries = (pre @ e # post), reason = why, ctx = c\<rparr> =
        Inl (InvalidStatusTransitionError (TimeEntry.status e) REJECTED))
   \<and> ((\<forall>e \<in> set es. canLockTimeEntry (TimeEntry.status e)) \<longrightarrow>
      lockTimeEntries \<lparr>LockEntriesParams.entries = es, reason = lockReason, ctx = c\<rparr> =
        Inr \<lparr>EntriesResult.entries = map (lockUpdatedEntry c) es,
             auditLogs = map (lockAuditLog c lockReason) es\<rparr>)
   \<and> ((\<forall>x \<in> set pre. canLockTimeEntry (TimeEntry.status x)) \<and>
      \<not> canLockTimeEntry (TimeEntry.status e) \<longrightarrow>
      lockTimeEntries
          \<lparr>LockEntriesParams.entries = (pre @ e # post), reason = lockReason, ctx = c\<rparr> =
        Inl (InvalidStatusTransitionError (TimeEntry.status e) LOCKED))
   \<and> ((\<forall>e \<in> set es. TimeEntry.status e = LOCKED) \<longrightarrow>
      billTimeEntries \<lparr>BillEntriesParams.entries = es, invoiceId = invoice, ctx = c\<rparr> =
        Inr \<lparr>EntriesResult.entries = map (billUpdatedEntry c invoice) es,
             auditLogs = map (billAuditLog c invoice) es\<rparr>)
   \<and> ((\<forall>x \<in> set pre. TimeEntry.status x = LOCKED) \<and>
      \<not> TimeEntry.status e = LOCKED \<longrightarrow>
      billTimeEntries
          \<lparr>BillEntriesParams.entries = (pre @ e # post), invoiceId = invoice, ctx = c\<rparr> =
        Inl (InvalidStatusTransitionError (TimeEntry.status e) BILLED))"
  by (intro conjI)
     (rule submitTimeEntries_pass submitTimeEntries_fail approveTimeEntries_pass
          approveTimeEntries_fail rejectTimeEntries_pass rejectTimeEntries_fail
          lockTimeEntries_pass lockTimeEntries_fail billTimeEntries_pass
          billTimeEntries_fail)+

theorem batch_fail_fast_witness:
  "submitTimeEntries
       \<lparr>SubmitEntriesParams.entries = [sampleEntry, sampleEntry],
        ctx = sampleContext, locks = (None :: PeriodLock list option)\<rparr> =
     Inr \<lparr>EntriesResult.entries = map (submitUpdatedEntry sampleContext) [sampleEntry, sampleEntry],
          auditLogs = map (submitAuditLog sampleContext) [sampleEntry, sampleEntry]\<rparr>
   \<and> submitTimeEntries
       \<lparr>SubmitEntriesParams.entries = [sampleEntry, sampleEntry\<lparr>TimeEntry.status := APPROVED\<rparr>, sampleEntry],
        ctx = sampleContext, locks = (None :: PeriodLock list option)\<rparr> =
     Inl (InvalidStatusTransitionError APPROVED SUBMITTED)
   \<and> approveTimeEntries
       \<lparr>ApproveEntriesParams.entries = [sampleEntry\<lparr>TimeEntry.status := SUBMITTED\<rparr>, sampleEntry\<lparr>TimeEntry.status := SUBMITTED\<rparr>],
        ctx = sampleContext, locks = (None :: PeriodLock list option)\<rparr> =
     Inr \<lparr>EntriesResult.entries = map (approveUpdatedEntry sampleContext) [sampleEntry\<lparr>TimeEntry.status := SUBMITTED\<rparr>, sampleEntry\<lparr>TimeEntry.status := SUBMITTED\<rparr>],
          auditLogs = map (approveAuditLog sampleContext) [sampleEntry\<lparr>TimeEntry.status := SUBMITTED\<rparr>, sampleEntry\<lparr>TimeEntry.status := SUBMITTED\<rparr>]\<rparr>
   \<and> approveTimeEntries
       \<lparr>ApproveEntriesParams.entries = [sampleEntry\<lparr>TimeEntry.status := SUBMITTED\<rparr>, sampleEntry, sampleEntry\<lparr>TimeEntry.status := SUBMITTED\<rparr>],
        ctx = sampleContext, locks = (None :: PeriodLock list option)\<rparr> =
     Inl (InvalidStatusTransitionError DRAFT APPROVED)
   \<and> rejectTimeEntries
       \<lparr>RejectEntriesParams.entries = [sampleEntry\<lparr>TimeEntry.status := SUBMITTED\<rparr>, sampleEntry\<lparr>TimeEntry.status := SUBMITTED\<rparr>],
        reason = ''Missing task details'', ctx = sampleContext\<rparr> =
     Inr \<lparr>EntriesResult.entries = map (rejectUpdatedEntry sampleContext ''Missing task details'') [sampleEntry\<lparr>TimeEntry.status := SUBMITTED\<rparr>, sampleEntry\<lparr>TimeEntry.status := SUBMITTED\<rparr>],
          auditLogs = map (rejectAuditLog sampleContext ''Missing task details'') [sampleEntry\<lparr>TimeEntry.status := SUBMITTED\<rparr>, sampleEntry\<lparr>TimeEntry.status := SUBMITTED\<rparr>]\<rparr>
   \<and> rejectTimeEntries
       \<lparr>RejectEntriesParams.entries = [sampleEntry\<lparr>TimeEntry.status := SUBMITTED\<rparr>, sampleEntry, sampleEntry\<lparr>TimeEntry.status := SUBMITTED\<rparr>],
        reason = ''Missing task details'', ctx = sampleContext\<rparr> =
     Inl (InvalidStatusTransitionError DRAFT REJECTED)
   \<and> lockTimeEntries
       \<lparr>LockEntriesParams.entries = [sampleEntry\<lparr>TimeEntry.status := APPROVED\<rparr>, sampleEntry\<lparr>TimeEntry.status := APPROVED\<rparr>],
        reason = Some ''Monthly closing'', ctx = sampleContext\<rparr> =
     Inr \<lparr>EntriesResult.entries = map (lockUpdatedEntry sampleContext) [sampleEntry\<lparr>TimeEntry.status := APPROVED\<rparr>, sampleEntry\<lparr>TimeEntry.status := APPROVED\<rparr>],
          auditLogs = map (lockAuditLog sampleContext (Some ''Monthly closing'')) [sampleEntry\<lparr>TimeEntry.status := APPROVED\<rparr>, sampleEntry\<lparr>TimeEntry.status := APPROVED\<rparr>]\<rparr>
   \<and> lockTimeEntries
       \<lparr>LockEntriesParams.entries = [sampleEntry\<lparr>TimeEntry.status := APPROVED\<rparr>, sampleEntry, sampleEntry\<lparr>TimeEntry.status := APPROVED\<rparr>],
        reason = Some ''Monthly closing'', ctx = sampleContext\<rparr> =
     Inl (InvalidStatusTransitionError DRAFT LOCKED)
   \<and> billTimeEntries
       \<lparr>BillEntriesParams.entries = [sampleEntry\<lparr>TimeEntry.status := LOCKED\<rparr>, sampleEntry\<lparr>TimeEntry.status := LOCKED\<rparr>],
        invoiceId = ''invoice-456'', ctx = sampleContext\<rparr> =
     Inr \<lparr>EntriesResult.entries = map (billUpdatedEntry sampleContext ''invoice-456'') [sampleEntry\<lparr>TimeEntry.status := LOCKED\<rparr>, sampleEntry\<lparr>TimeEntry.status := LOCKED\<rparr>],
          auditLogs = map (billAuditLog sampleContext ''invoice-456'') [sampleEntry\<lparr>TimeEntry.status := LOCKED\<rparr>, sampleEntry\<lparr>TimeEntry.status := LOCKED\<rparr>]\<rparr>
   \<and> billTimeEntries
       \<lparr>BillEntriesParams.entries = [sampleEntry\<lparr>TimeEntry.status := LOCKED\<rparr>, sampleEntry, sampleEntry\<lparr>TimeEntry.status := LOCKED\<rparr>],
        invoiceId = ''invoice-456'', ctx = sampleContext\<rparr> =
     Inl (InvalidStatusTransitionError DRAFT BILLED)
   \<and> submitTimeEntries
       \<lparr>SubmitEntriesParams.entries = [sampleEntry, sampleEntry\<lparr>TimeEntry.status := REJECTED\<rparr>],
        ctx = sampleContext, locks = Some [sampleLock]\<rparr> =
     Inl (PeriodLockedError 1710061200000 1710090000000)"
proof -
  have s: "TimeEntry.status sampleEntry = DRAFT"
    "TimeEntry.startAt sampleEntry = 1710061200000"
    "TimeEntry.endAt sampleEntry = 1710090000000"
    by (simp_all add: sampleEntry_def)
  have l: "isPeriodLocked 1710061200000 1710090000000 [sampleLock]"
    by (simp add: isPeriodLocked_def sampleLock_def areIntervalsOverlapping_def)
  have n: "\<not> isPeriodLocked 1710061200000 1710090000000 ([] :: PeriodLock list)"
    by (simp add: isPeriodLocked_def)
  have 1: "submitTimeEntries
       \<lparr>SubmitEntriesParams.entries = [sampleEntry, sampleEntry],
        ctx = sampleContext, locks = (None :: PeriodLock list option)\<rparr> =
     Inr \<lparr>EntriesResult.entries = map (submitUpdatedEntry sampleContext) [sampleEntry, sampleEntry],
          auditLogs = map (submitAuditLog sampleContext) [sampleEntry, sampleEntry]\<rparr>"
    using batch_fail_fast
      [where es = "[sampleEntry, sampleEntry]"
         and c = sampleContext and lk = "None :: PeriodLock list option"] s n
    by (simp add: canSubmitTimeEntry_def)
  have 2: "submitTimeEntries
       \<lparr>SubmitEntriesParams.entries = [sampleEntry, sampleEntry\<lparr>TimeEntry.status := APPROVED\<rparr>, sampleEntry],
        ctx = sampleContext, locks = (None :: PeriodLock list option)\<rparr> =
     Inl (InvalidStatusTransitionError APPROVED SUBMITTED)"
    using batch_fail_fast
      [where pre = "[sampleEntry]" and e = "sampleEntry\<lparr>TimeEntry.status := APPROVED\<rparr>" and post = "[sampleEntry]"
         and c = sampleContext and lk = "None :: PeriodLock list option"] s n
    by (simp add: canSubmitTimeEntry_def)
  have 3: "approveTimeEntries
       \<lparr>ApproveEntriesParams.entries = [sampleEntry\<lparr>TimeEntry.status := SUBMITTED\<rparr>, sampleEntry\<lparr>TimeEntry.status := SUBMITTED\<rparr>],
        ctx = sampleContext, locks = (None :: PeriodLock list option)\<rparr> =
     Inr \<lparr>EntriesResult.entries = map (approveUpdatedEntry sampleContext) [sampleEntry\<lparr>TimeEntry.status := SUBMITTED\<rparr>, sampleEntry\<lparr>TimeEntry.status := SUBMITTED\<rparr>],
          auditLogs = map (approveAuditLog sampleContext) [sampleEntry\<lparr>TimeEntry.status := SUBMITTED\<rparr>, sampleEntry\<lparr>TimeEntry.status := SUBMITTED\<rparr>]\<rparr>"
    using batch_fail_fast
      [where es = "[sampleEntry\<lparr>TimeEntry.status := SUBMITTED\<rparr>, sampleEntry\<lparr>TimeEntry.status := SUBMITTED\<rparr>]"
         and c = sampleContext and lk = "None :: PeriodLock list option"] s n
    by (simp add: canApproveTimeEntry_def)
  have 4: "approveTimeEntries
       \<lparr>ApproveEntriesParams.entries = [sampleEntry\<lparr>TimeEntry.status := SUBMITTED\<rparr>, sampleEntry, sampleEntry\<lparr>TimeEntry.status := SUBMITTED\<rparr>],
        ctx = sampleContext, locks = (None :: PeriodLock list option)\<rparr> =
     Inl (InvalidStatusTransitionError DRAFT APPROVED)"
    using batch_fail_fast
      [where pre = "[sampleEntry\<lparr>TimeEntry.status := SUBMITTED\<rparr>]" and e = "sampleEntry" and post = "[sampleEntry\<lparr>TimeEntry.status := SUBMITTED\<rparr>]"
         and c = sampleContext and lk = "None :: PeriodLock list option"] s n
    by (simp add: canApproveTimeEntry_def)
  have 5: "rejectTimeEntries
       \<lparr>RejectEntriesParams.entries = [sampleEntry\<lparr>TimeEntry.status := SUBMITTED\<rparr>, sampleEntry\<lparr>TimeEntry.status := SUBMITTED\<rparr>],
        reason = ''Missing task details'', ctx = sampleContext\<rparr> =
     Inr \<lparr>EntriesResult.entries = map (rejectUpdatedEntry sampleContext ''Missing task details'') [sampleEntry\<lparr>TimeEntry.status := SUBMITTED\<rparr>, sampleEntry\<lparr>TimeEntry.status := SUBMITTED\<rparr>],
          auditLogs = map (rejectAuditLog sampleContext ''Missing task details'') [sampleEntry\<lparr>TimeEntry.status := SUBMITTED\<rparr>, sampleEntry\<lparr>TimeEntry.status := SUBMITTED\<rparr>]\<rparr>"
    using batch_fail_fast
      [where es = "[sampleEntry\<lparr>TimeEntry.status := SUBMITTED\<rparr>, sampleEntry\<lparr>TimeEntry.status := SUBMITTED\<rparr>]"
         and c = sampleContext and lk = "None :: PeriodLock list option" and why = "''Missing task details''"] s n
    by (simp add: canRejectTimeEntry_def)
  have 6: "rejectTimeEntries
       \<lparr>RejectEntriesParams.entries = [sampleEntry\<lparr>TimeEntry.status := SUBMITTED\<rparr>, sampleEntry, sampleEntry\<lparr>TimeEntry.status := SUBMITTED\<rparr>],
        reason = ''Missing task details'', ctx = sampleContext\<rparr> =
     Inl (InvalidStatusTransitionError DRAFT REJECTED)"
    using batch_fail_fast
      [where pre = "[sampleEntry\<lparr>TimeEntry.status := SUBMITTED\<rparr>]" and e = "sampleEntry" and post = "[sampleEntry\<lparr>TimeEntry.status := SUBMITTED\<rparr>]"
         and c = sampleContext and lk = "None :: PeriodLock list option" and why = "''Missing task details''"] s n
    by (simp add: canRejectTimeEntry_def)
  have 7: "lockTimeEntries
       \<lparr>LockEntriesParams.entries = [sampleEntry\<lparr>TimeEntry.status := APPROVED\<rparr>, sampleEntry\<lparr>TimeEntry.status := APPROVED\<rparr>],
        reason = Some ''Monthly closing'', ctx = sampleContext\<rparr> =
     Inr \<lparr>EntriesResult.entries = map (lockUpdatedEntry sampleContext) [sampleEntry\<lparr>TimeEntry.status := APPROVED\<rparr>, sampleEntry\<lparr>TimeEntry.status := APPROVED\<rparr>],
          auditLogs = map (lockAuditLog sampleContext (Some ''Monthly closing'')) [sampleEntry\<lparr>TimeEntry.status := APPROVED\<rparr>, sampleEntry\<lparr>TimeEntry.status := APPROVED\<rparr>]\<rparr>"
    using batch_fail_fast
      [where es = "[sampleEntry\<lparr>TimeEntry.status := APPROVED\<rparr>, sampleEntry\<lparr>TimeEntry.status := APPROVED\<rparr>]"
         and c = sampleContext and lk = "None :: PeriodLock list option" and lockReason = "Some ''Monthly closing''"] s n
    by (simp add: canLockTimeEntry_def)
  have 8: "lockTimeEntries
       \<lparr>LockEntriesParams.entries = [sampleEntry\<lparr>TimeEntry.status := APPROVED\<rparr>, sampleEntry, sampleEntry\<lparr>TimeEntry.status := APPROVED\<rparr>],
        reason = Some ''Monthly closing'', ctx = sampleContext\<rparr> =
     Inl (InvalidStatusTransitionError DRAFT LOCKED)"
    using batch_fail_fast
      [where pre = "[sampleEntry\<lparr>TimeEntry.status := APPROVED\<rparr>]" and e = "sampleEntry" and post = "[sampleEntry\<lparr>TimeEntry.status := APPROVED\<rparr>]"
         and c = sampleContext and lk = "None :: PeriodLock list option" and lockReason = "Some ''Monthly closing''"] s n
    by (simp add: canLockTimeEntry_def)
  have 9: "billTimeEntries
       \<lparr>BillEntriesParams.entries = [sampleEntry\<lparr>TimeEntry.status := LOCKED\<rparr>, sampleEntry\<lparr>TimeEntry.status := LOCKED\<rparr>],
        invoiceId = ''invoice-456'', ctx = sampleContext\<rparr> =
     Inr \<lparr>EntriesResult.entries = map (billUpdatedEntry sampleContext ''invoice-456'') [sampleEntry\<lparr>TimeEntry.status := LOCKED\<rparr>, sampleEntry\<lparr>TimeEntry.status := LOCKED\<rparr>],
          auditLogs = map (billAuditLog sampleContext ''invoice-456'') [sampleEntry\<lparr>TimeEntry.status := LOCKED\<rparr>, sampleEntry\<lparr>TimeEntry.status := LOCKED\<rparr>]\<rparr>"
    using batch_fail_fast
      [where es = "[sampleEntry\<lparr>TimeEntry.status := LOCKED\<rparr>, sampleEntry\<lparr>TimeEntry.status := LOCKED\<rparr>]"
         and c = sampleContext and lk = "None :: PeriodLock list option" and invoice = "''invoice-456''"] s n
    by simp
  have 10: "billTimeEntries
       \<lparr>BillEntriesParams.entries = [sampleEntry\<lparr>TimeEntry.status := LOCKED\<rparr>, sampleEntry, sampleEntry\<lparr>TimeEntry.status := LOCKED\<rparr>],
        invoiceId = ''invoice-456'', ctx = sampleContext\<rparr> =
     Inl (InvalidStatusTransitionError DRAFT BILLED)"
    using batch_fail_fast
      [where pre = "[sampleEntry\<lparr>TimeEntry.status := LOCKED\<rparr>]" and e = "sampleEntry" and post = "[sampleEntry\<lparr>TimeEntry.status := LOCKED\<rparr>]"
         and c = sampleContext and lk = "None :: PeriodLock list option" and invoice = "''invoice-456''"] s n
    by simp
  have 11: "submitTimeEntries
       \<lparr>SubmitEntriesParams.entries = [sampleEntry, sampleEntry\<lparr>TimeEntry.status := REJECTED\<rparr>],
        ctx = sampleContext, locks = Some [sampleLock]\<rparr> =
     Inl (PeriodLockedError 1710061200000 1710090000000)"
    using batch_fail_fast
      [where pre = "[]" and e = sampleEntry
         and post = "[sampleEntry\<lparr>TimeEntry.status := REJECTED\<rparr>]"
         and c = sampleContext and lk = "Some [sampleLock]"] s l
    by (simp add: canSubmitTimeEntry_def)
  from 1 2 3 4 5 6 7 8 9 10 11 show ?thesis by simp
qed

subsection \<open>The full lifecycle\<close>

text \<open>
  Claim C9.  For a \<^const>\<open>DRAFT\<close> entry \<open>e\<close> and no locks, the four calls submit,
  approve, lock and bill, each on the entry returned by the call before, all succeed.
  Each returns exactly one audit log (four in all, with actions SUBMIT, APPROVE, LOCK,
  BILL) and one entry, which is the entry it received with only the documented fields
  overwritten: \<open>status\<close> and \<open>updatedAt\<close> by submit; \<open>status\<close>, \<open>approvedBy\<close>,
  \<open>approvedAt\<close>, \<open>updatedAt\<close> by approve; \<open>status\<close>, \<open>lockedAt\<close>, \<open>updatedAt\<close> by
  lock; \<open>status\<close>, \<open>billedAt\<close>, \<open>invoiceId\<close>, \<open>updatedAt\<close> by bill.  The final entry
  is \<^const>\<open>BILLED\<close> with \<open>billedAt\<close> and \<open>invoiceId\<close> set, and no stage sets a field
  of a later stage: after submit, \<open>approvedBy\<close> and \<open>approvedAt\<close> are what they were in
  \<open>e\<close> (unset if they were unset), and likewise \<open>lockedAt\<close> before lock and
  \<open>billedAt\<close>, \<open>invoiceId\<close> before bill.
\<close>

theorem full_lifecycle:
  fixes e :: TimeEntry and c1 c2 c3 c4 :: WorkflowContext
    and lockReason :: "string option" and invoice :: string
  assumes "TimeEntry.status e = DRAFT"
  defines "e1 \<equiv> e\<lparr>TimeEntry.status := SUBMITTED, TimeEntry.updatedAt := timestamp c1\<rparr>"
  defines "e2 \<equiv> e1\<lparr>TimeEntry.status := APPROVED,
                     TimeEntry.approvedBy := Some (WorkflowContext.userId c2),
                     TimeEntry.approvedAt := Some (timestamp c2),
                     TimeEntry.updatedAt := timestamp c2\<rparr>"
  defines "e3 \<equiv> e2\<lparr>TimeEntry.status := LOCKED,
                     TimeEntry.lockedAt := Some (timestamp c3),
                     TimeEntry.updatedAt := timestamp c3\<rparr>"
  defines "e4 \<equiv> e3\<lparr>TimeEntry.status := BILLED,
                     TimeEntry.billedAt := Some (timestamp c4),
                     TimeEntry.invoiceId := Some invoice,
                     TimeEntry.updatedAt := timestamp c4\<rparr>"
  shows "submitTimeEntries
           \<lparr>SubmitEntriesParams.entries = [e], ctx = c1,
            locks = (None :: PeriodLock list option)\<rparr> =
           Inr \<lparr>EntriesResult.entries = [e1], auditLogs = [submitAuditLog c1 e]\<rparr>
       \<and> approveTimeEntries
           \<lparr>ApproveEntriesParams.entries = [e1], ctx = c2,
            locks = (None :: PeriodLock list option)\<rparr> =
           Inr \<lparr>EntriesResult.entries = [e2], auditLogs = [approveAuditLog c2 e1]\<rparr>
       \<and> lockTimeEntries \<lparr>LockEntriesParams.entries = [e2], reason = lockReason, ctx = c3\<rparr> =
           Inr \<lparr>EntriesResult.entries = [e3], auditLogs = [lockAuditLog c3 lockReason e2]\<rparr>
       \<and> billTimeEntries \<lparr>BillEntriesParams.entries = [e3], invoiceId = invoice, ctx = c4\<rparr> =
           Inr \<lparr>EntriesResult.entries = [e4], auditLogs = [billAuditLog c4 invoice e3]\<rparr>
       \<and> length ([submitAuditLog c1 e] @ [approveAuditLog c2 e1] @
                  [lockAuditLog c3 lockReason e2] @ [billAuditLog c4 invoice e3]) = 4
       \<and> map action [submitAuditLog c1 e, approveAuditLog c2 e1,
                      lockAuditLog c3 lockReason e2, billAuditLog c4 invoice e3] =
           [''SUBMIT'', ''APPROVE'', ''LOCK'', ''BILL'']
       \<and> TimeEntry.status e4 = BILLED
       \<and> TimeEntry.billedAt e4 = Some (timestamp c4)
       \<and> TimeEntry.invoiceId e4 = Some invoice
       \<and> TimeEntry.approvedBy e1 = TimeEntry.approvedBy e
       \<and> TimeEntry.approvedAt e1 = TimeEntry.approvedAt e
       \<and> (TimeEntry.approvedBy e = None \<longrightarrow> TimeEntry.approvedBy e1 = None)
       \<and> TimeEntry.lockedAt e2 = TimeEntry.lockedAt e
       \<and> TimeEntry.billedAt e3 = TimeEntry.billedAt e
       \<and> TimeEntry.invoiceId e3 = TimeEntry.invoiceId e"
proof -
  have n: "\<And>s f. \<not> isPeriodLocked s f ([] :: PeriodLock list)"
    by (simp add: isPeriodLocked_def)
  have 1: "submitTimeEntries
           \<lparr>SubmitEntriesParams.entries = [e], ctx = c1,
            locks = (None :: PeriodLock list option)\<rparr> =
           Inr \<lparr>EntriesResult.entries = [e1], auditLogs = [submitAuditLog c1 e]\<rparr>"
    using assms(1) n
    by (simp add: submitTimeEntries_def submitBody_def canSubmitTimeEntry_def
        submitUpdatedEntry_def e1_def)
  have 2: "approveTimeEntries
           \<lparr>ApproveEntriesParams.entries = [e1], ctx = c2,
            locks = (None :: PeriodLock list option)\<rparr> =
           Inr \<lparr>EntriesResult.entries = [e2], auditLogs = [approveAuditLog c2 e1]\<rparr>"
    using n
    by (simp add: approveTimeEntries_def approveBody_def canApproveTimeEntry_def
        approveUpdatedEntry_def e1_def e2_def)
  have 3: "lockTimeEntries \<lparr>LockEntriesParams.entries = [e2], reason = lockReason, ctx = c3\<rparr> =
           Inr \<lparr>EntriesResult.entries = [e3], auditLogs = [lockAuditLog c3 lockReason e2]\<rparr>"
    by (simp add: lockTimeEntries_def lockBody_def canLockTimeEntry_def
        lockUpdatedEntry_def e2_def e3_def)
  have 4: "billTimeEntries \<lparr>BillEntriesParams.entries = [e3], invoiceId = invoice, ctx = c4\<rparr> =
           Inr \<lparr>EntriesResult.entries = [e4], auditLogs = [billAuditLog c4 invoice e3]\<rparr>"
    by (simp add: billTimeEntries_def billBody_def billUpdatedEntry_def e3_def e4_def)
  have 5: "map action [submitAuditLog c1 e, approveAuditLog c2 e1,
                      lockAuditLog c3 lockReason e2, billAuditLog c4 invoice e3] =
           [''SUBMIT'', ''APPROVE'', ''LOCK'', ''BILL'']"
    by (simp add: submitAuditLog_def approveAuditLog_def lockAuditLog_def billAuditLog_def)
  have 6: "TimeEntry.status e4 = BILLED" "TimeEntry.billedAt e4 = Some (timestamp c4)"
    "TimeEntry.invoiceId e4 = Some invoice" "TimeEntry.approvedBy e1 = TimeEntry.approvedBy e"
    "TimeEntry.approvedAt e1 = TimeEntry.approvedAt e"
    "TimeEntry.lockedAt e2 = TimeEntry.lockedAt e" "TimeEntry.billedAt e3 = TimeEntry.billedAt e"
    "TimeEntry.invoiceId e3 = TimeEntry.invoiceId e"
    by (simp_all add: e1_def e2_def e3_def e4_def)
  from 1 2 3 4 5 6 show ?thesis by simp
qed

theorem full_lifecycle_witness:
  "submitTimeEntries
     \<lparr>SubmitEntriesParams.entries = [sampleEntry], ctx = sampleContext,
      locks = (None :: PeriodLock list option)\<rparr> =
     Inr \<lparr>EntriesResult.entries =
            [sampleEntry\<lparr>TimeEntry.status := SUBMITTED, TimeEntry.updatedAt := 1710496800000\<rparr>],
          auditLogs = [submitAuditLog sampleContext sampleEntry]\<rparr>
   \<and> TimeEntry.approvedBy
        (sampleEntry\<lparr>TimeEntry.status := SUBMITTED, TimeEntry.updatedAt := 1710496800000\<rparr>) = None"
proof -
  have d: "TimeEntry.status sampleEntry = DRAFT" "TimeEntry.approvedBy sampleEntry = None"
    by (simp_all add: sampleEntry_def)
  have t: "timestamp sampleContext = 1710496800000"
    by (simp add: sampleContext_def)
  show ?thesis
    using full_lifecycle [OF d(1), where ?c1.0 = sampleContext and ?c2.0 = sampleContext
        and ?c3.0 = sampleContext and ?c4.0 = sampleContext and lockReason = None
        and invoice = "''invoice-456''"] d(2) t
    by simp
qed

subsection \<open>Rejection and its reason\<close>

text \<open>
  Claim C5, as stated, fails: \<^verbatim>\<open>rejectTimeEntries\<close> never looks at the reason.
  With the empty reason the call on a \<^const>\<open>SUBMITTED\<close> entry succeeds and returns
  the entry as \<^const>\<open>REJECTED\<close>, with the empty string as its rejection reason.
\<close>

theorem rejectTimeEntries_empty_reason_counterexample:
  "rejectTimeEntries
     \<lparr>RejectEntriesParams.entries = [sampleEntry\<lparr>TimeEntry.status := SUBMITTED\<rparr>],
      reason = '''', ctx = sampleContext\<rparr> =
   Inr \<lparr>EntriesResult.entries =
          [sampleEntry\<lparr>TimeEntry.status := REJECTED,
             TimeEntry.rejectedBy := Some ''user-123'',
             TimeEntry.rejectedAt := Some 1710496800000,
             TimeEntry.rejectionReason := Some '''',
             TimeEntry.updatedAt := 1710496800000\<rparr>],
        auditLogs =
          [\<lparr>entityType = ''TimeEntry'', entityId = ''entry-1'', action = ''REJECT'',
            userId = ''user-123'',
            metadata = [(''userRole'', MString ''manager''),
                        (''previousStatus'', MString ''SUBMITTED''),
                        (''newStatus'', MString ''REJECTED''),
                        (''reason'', MString '''')]\<rparr>]\<rparr>"
  by (simp add: rejectTimeEntries_def rejectBody_def canRejectTimeEntry_def
      rejectUpdatedEntry_def rejectAuditLog_def sampleEntry_def sampleContext_def)

text \<open>
  Claim C5, amended.  For every batch whose statuses permit rejection (each
  \<^const>\<open>SUBMITTED\<close> or \<^const>\<open>APPROVED\<close>) and every reason, empty or not,
  \<^verbatim>\<open>rejectTimeEntries\<close> succeeds; it returns one entry and one audit log per input
  entry, in input order; every returned entry has status \<^const>\<open>REJECTED\<close>,
  \<open>rejectedBy\<close> the user of the context, \<open>rejectedAt\<close> its timestamp and
  \<open>rejectionReason\<close> the reason given; and every audit log has action REJECT and
  carries the reason in its metadata.
\<close>

theorem rejectTimeEntries_any_reason:
  "(\<forall>e \<in> set es. TimeEntry.status e = SUBMITTED \<or> TimeEntry.status e = APPROVED) \<longrightarrow>
   (\<exists>r. rejectTimeEntries \<lparr>RejectEntriesParams.entries = es, reason = why, ctx = c\<rparr> = Inr r \<and>
        length (EntriesResult.entries r) = length es \<and>
        length (auditLogs r) = length es \<and>
        (\<forall>i < length es.
           TimeEntry.id (EntriesResult.entries r ! i) = TimeEntry.id (es ! i) \<and>
           TimeEntry.status (EntriesResult.entries r ! i) = REJECTED \<and>
           TimeEntry.rejectedBy (EntriesResult.entries r ! i) = Some (WorkflowContext.userId c) \<and>
           TimeEntry.rejectedAt (EntriesResult.entries r ! i) = Some (timestamp c) \<and>
           TimeEntry.rejectionReason (EntriesResult.entries r ! i) = Some why \<and>
           entityId (auditLogs r ! i) = TimeEntry.id (es ! i) \<and>
           action (auditLogs r ! i) = ''REJECT'' \<and>
           map_of (metadata (auditLogs r ! i)) ''reason'' = Some (MString why)))"
proof
  assume "\<forall>e \<in> set es. TimeEntry.status e = SUBMITTED \<or> TimeEntry.status e = APPROVED"
  then have "rejectTimeEntries \<lparr>RejectEntriesParams.entries = es, reason = why, ctx = c\<rparr> =
        Inr \<lparr>EntriesResult.entries = map (rejectUpdatedEntry c why) es,
             auditLogs = map (rejectAuditLog c why) es\<rparr>"
    using rejectTimeEntries_pass [of es why c] by (simp add: canRejectTimeEntry_def)
  then show "\<exists>r. rejectTimeEntries \<lparr>RejectEntriesParams.entries = es, reason = why, ctx = c\<rparr> = Inr r \<and>
        length (EntriesResult.entries r) = length es \<and>
        length (auditLogs r) = length es \<and>
        (\<forall>i < length es.
           TimeEntry.id (EntriesResult.entries r ! i) = TimeEntry.id (es ! i) \<and>
           TimeEntry.status (EntriesResult.entries r ! i) = REJECTED \<and>
           TimeEntry.rejectedBy (EntriesResult.entries r ! i) = Some (WorkflowContext.userId c) \<and>
           TimeEntry.rejectedAt (EntriesResult.entries r ! i) = Some (timestamp c) \<and>
           TimeEntry.rejectionReason (EntriesResult.entries r ! i) = Some why \<and>
           entityId (auditLogs r ! i) = TimeEntry.id (es ! i) \<and>
           action (auditLogs r ! i) = ''REJECT'' \<and>
           map_of (metadata (auditLogs r ! i)) ''reason'' = Some (MString why))"
    by (simp add: rejectUpdatedEntry_def rejectAuditLog_def)
qed

theorem rejectTimeEntries_any_reason_witness:
  "\<exists>r. rejectTimeEntries
         \<lparr>RejectEntriesParams.entries =
            [sampleEntry\<lparr>TimeEntry.status := SUBMITTED\<rparr>,
             sampleEntry\<lparr>TimeEntry.status := APPROVED\<rparr>],
          reason = ''Missing task details'', ctx = sampleContext\<rparr> = Inr r \<and>
       map TimeEntry.status (EntriesResult.entries r) = [REJECTED, REJECTED] \<and>
       map TimeEntry.rejectionReason (EntriesResult.entries r) =
         [Some ''Missing task details'', Some ''Missing task details''] \<and>
       map (\<lambda>l. map_of (metadata l) ''reason'') (auditLogs r) =
         [Some (MString ''Missing task details''), Some (MString ''Missing task details'')]"
proof -
  have "\<forall>e \<in> set [sampleEntry\<lparr>TimeEntry.status := SUBMITTED\<rparr>,
             sampleEntry\<lparr>TimeEntry.status := APPROVED\<rparr>].
          TimeEntry.status e = SUBMITTED \<or> TimeEntry.status e = APPROVED"
    by simp
  with rejectTimeEntries_any_reason
         [of "[sampleEntry\<lparr>TimeEntry.status := SUBMITTED\<rparr>,
               sampleEntry\<lparr>TimeEntry.status := APPROVED\<rparr>]"
             "''Missing task details''" sampleContext]
  obtain r where r: "rejectTimeEntries
         \<lparr>RejectEntriesParams.entries =
            [sampleEntry\<lparr>TimeEntry.status := SUBMITTED\<rparr>,
             sampleEntry\<lparr>TimeEntry.status := APPROVED\<rparr>],
          reason = ''Missing task details'', ctx = sampleContext\<rparr> = Inr r"
     and l: "length (EntriesResult.entries r) = 2" "length (auditLogs r) = 2"
     and f: "\<forall>i < 2.
           TimeEntry.status (EntriesResult.entries r ! i) = REJECTED \<and>
           TimeEntry.rejectionReason (EntriesResult.entries r ! i) =
             Some ''Missing task details'' \<and>
           map_of (metadata (auditLogs r ! i)) ''reason'' =
             Some (MString ''Missing task details'')"
    by auto
  from f have f0: "TimeEntry.status (EntriesResult.entries r ! 0) = REJECTED"
      "TimeEntry.rejectionReason (EntriesResult.entries r ! 0) = Some ''Missing task details''"
      "map_of (metadata (auditLogs r ! 0)) ''reason'' = Some (MString ''Missing task details'')"
      "TimeEntry.status (EntriesResult.entries r ! 1) = REJECTED"
      "TimeEntry.rejectionReason (EntriesResult.entries r ! 1) = Some ''Missing task details''"
      "map_of (metadata (auditLogs r ! 1)) ''reason'' = Some (MString ''Missing task details'')"
    by simp_all
  from l obtain a b where ab: "EntriesResult.entries r = [a, b]"
    by (cases "EntriesResult.entries r"; simp; metis length_0_conv length_Suc_conv)
  from l obtain x y where xy: "auditLogs r = [x, y]"
    by (cases "auditLogs r"; simp; metis length_0_conv length_Suc_conv)
  from r f0 ab xy show ?thesis by simp
qed

subsection \<open>Interval overlap\<close>

text \<open>The two modes of the library test, written out on the ordered end points.\<close>

lemma areIntervalsOverlapping_inclusive:
  "areIntervalsOverlapping (a, b) (c, d) True \<longleftrightarrow> min a b \<le> max c d \<and> min c d \<le> max a b"
  by (simp add: areIntervalsOverlapping_def)

lemma areIntervalsOverlapping_exclusive:
  "areIntervalsOverlapping (a, b) (c, d) False \<longleftrightarrow> min a b < max c d \<and> min c d < max a b"
  by (simp add: areIntervalsOverlapping_def)

subsection \<open>The period lock of the workflows has no scope\<close>

text \<open>
  Claim C10.  \<^verbatim>\<open>isPeriodLocked(startAt, endAt, locks)\<close> is true exactly when some
  lock of the list is active and overlaps the interval under inclusive bounds; the
  condition mentions neither a project nor a client (the lock type of this function has
  no such fields).  The overlap test is the library's, on the ordered end points; for
  intervals given in order it is \<open>start \<le> periodEnd \<and> periodStart \<le> finish\<close>.
  Consequently an active lock whose project and client are both different from those of
  a submittable entry still makes \<^verbatim>\<open>submitTimeEntries\<close> throw the period-locked
  error when the entry's interval touches the lock's period, while the scope-filtered
  checks \<^verbatim>\<open>checkEntryLockConflict\<close> and \<^verbatim>\<open>checkPeriodLockConflict\<close> report no
  conflict for the same entry and lock.
\<close>

theorem isPeriodLocked_ignores_scope:
  fixes lockList :: "'a PeriodLock_scheme list" and lock :: TimeLock
  shows
  "(isPeriodLocked start finish lockList \<longleftrightarrow>
      (\<exists>l \<in> set lockList. PeriodLock.isActive l \<and>
         min start finish \<le> max (PeriodLock.periodStart l) (PeriodLock.periodEnd l) \<and>
         min (PeriodLock.periodStart l) (PeriodLock.periodEnd l) \<le> max start finish))
   \<and> (start \<le> finish \<and>
        (\<forall>l \<in> set lockList. PeriodLock.periodStart l \<le> PeriodLock.periodEnd l) \<longrightarrow>
        (isPeriodLocked start finish lockList \<longleftrightarrow>
          (\<exists>l \<in> set lockList. PeriodLock.isActive l \<and>
             start \<le> PeriodLock.periodEnd l \<and> PeriodLock.periodStart l \<le> finish)))
   \<and> (canSubmitTimeEntry (TimeEntry.status e) \<and> PeriodLock.isActive lock \<and>
        TimeLock.projectId lock \<noteq> Some (TimeEntry.projectId e) \<and>
        TimeLock.clientId lock \<noteq> Some (TimeEntry.clientId e) \<and>
        TimeEntry.startAt e \<le> TimeEntry.endAt e \<and>
        PeriodLock.periodStart lock \<le> PeriodLock.periodEnd lock \<and>
        TimeEntry.startAt e \<le> PeriodLock.periodEnd lock \<and>
        PeriodLock.periodStart lock \<le> TimeEntry.endAt e \<longrightarrow>
        submitTimeEntries
          \<lparr>SubmitEntriesParams.entries = [e], ctx = c, locks = Some [lock]\<rparr> =
          Inl (PeriodLockedError (TimeEntry.startAt e) (TimeEntry.endAt e)) \<and>
        checkEntryLockConflict e [lock] = None \<and>
        checkPeriodLockConflict (TimeEntry.startAt e) (TimeEntry.endAt e)
          (Some (TimeEntry.projectId e)) (Some (TimeEntry.clientId e)) (Some [lock]) = None)"
proof (intro conjI impI)
  show g: "isPeriodLocked start finish lockList \<longleftrightarrow>
      (\<exists>l \<in> set lockList. PeriodLock.isActive l \<and>
         min start finish \<le> max (PeriodLock.periodStart l) (PeriodLock.periodEnd l) \<and>
         min (PeriodLock.periodStart l) (PeriodLock.periodEnd l) \<le> max start finish)"
    by (simp add: isPeriodLocked_def list_ex_iff areIntervalsOverlapping_inclusive)
  assume "start \<le> finish \<and>
        (\<forall>l \<in> set lockList. PeriodLock.periodStart l \<le> PeriodLock.periodEnd l)"
  then show "isPeriodLocked start finish lockList \<longleftrightarrow>
          (\<exists>l \<in> set lockList. PeriodLock.isActive l \<and>
             start \<le> PeriodLock.periodEnd l \<and> PeriodLock.periodStart l \<le> finish)"
    unfolding g by (auto simp: min_def max_def)
next
  assume a: "canSubmitTimeEntry (TimeEntry.status e) \<and> PeriodLock.isActive lock \<and>
        TimeLock.projectId lock \<noteq> Some (TimeEntry.projectId e) \<and>
        TimeLock.clientId lock \<noteq> Some (TimeEntry.clientId e) \<and>
        TimeEntry.startAt e \<le> TimeEntry.endAt e \<and>
        PeriodLock.periodStart lock \<le> PeriodLock.periodEnd lock \<and>
        TimeEntry.startAt e \<le> PeriodLock.periodEnd lock \<and>
        PeriodLock.periodStart lock \<le> TimeEntry.endAt e"
  then have "isPeriodLocked (TimeEntry.startAt e) (TimeEntry.endAt e) [lock]"
    by (simp add: isPeriodLocked_def areIntervalsOverlapping_inclusive)
  with a show "submitTimeEntries
          \<lparr>SubmitEntriesParams.entries = [e], ctx = c, locks = Some [lock]\<rparr> =
          Inl (PeriodLockedError (TimeEntry.startAt e) (TimeEntry.endAt e))"
    by (simp add: submitTimeEntries_def submitBody_def)
  from a show "checkEntryLockConflict e [lock] = None"
    by (simp add: checkEntryLockConflict_def)
  from a show "checkPeriodLockConflict (TimeEntry.startAt e) (TimeEntry.endAt e)
          (Some (TimeEntry.projectId e)) (Some (TimeEntry.clientId e)) (Some [lock]) = None"
    by (auto simp: checkPeriodLockConflict_def)
qed

theorem isPeriodLocked_ignores_scope_witness:
  "isPeriodLocked 1710061200000 1710090000000
     [sampleLock\<lparr>TimeLock.projectId := Some ''project-2''\<rparr>]
   \<and> submitTimeEntries
       \<lparr>SubmitEntriesParams.entries = [sampleEntry], ctx = sampleContext,
        locks = Some [sampleLock\<lparr>TimeLock.projectId := Some ''project-2''\<rparr>]\<rparr> =
       Inl (PeriodLockedError 1710061200000 1710090000000)
   \<and> checkEntryLockConflict sampleEntry
       [sampleLock\<lparr>TimeLock.projectId := Some ''project-2''\<rparr>] = None"
proof -
  have h: "canSubmitTimeEntry (TimeEntry.status sampleEntry)"
    "TimeEntry.startAt sampleEntry = 1710061200000"
    "TimeEntry.endAt sampleEntry = 1710090000000"
    "TimeEntry.projectId sampleEntry = ''project-1''"
    "TimeEntry.clientId sampleEntry = ''client-1''"
    by (simp_all add: sampleEntry_def canSubmitTimeEntry_def)
  have k: "PeriodLock.isActive sampleLock" "PeriodLock.periodStart sampleLock = 1709251200000"
    "PeriodLock.periodEnd sampleLock = 1711843200000" "TimeLock.clientId sampleLock = None"
    by (simp_all add: sampleLock_def)
  show ?thesis
    using isPeriodLocked_ignores_scope
      [where start = 1710061200000 and finish = 1710090000000
         and lockList = "[sampleLock\<lparr>TimeLock.projectId := Some ''project-2''\<rparr>]"
         and e = sampleEntry and c = sampleContext
         and lock = "sampleLock\<lparr>TimeLock.projectId := Some ''project-2''\<rparr>"] h k
    by simp
qed

subsection \<open>Overlap of a new lock with the existing ones\<close>

lemma find_Some_holds: "find P xs = Some x \<Longrightarrow> P x \<and> x \<in> set xs"
  by (induction xs) (auto split: if_splits)

lemma validateLockOverlap_Inr_iff:
  "validateLockOverlap newLock existing = Inr () \<longleftrightarrow>
     \<not> (\<exists>lock \<in> set existing. PeriodLock.isActive lock \<and>
          ((truthy (CreateLockParams.projectId newLock) \<and>
              TimeLock.projectId lock = CreateLockParams.projectId newLock) \<or>
           (truthy (CreateLockParams.clientId newLock) \<and>
              TimeLock.clientId lock = CreateLockParams.clientId newLock)) \<and>
          areIntervalsOverlapping
            (CreateLockParams.periodStart newLock, CreateLockParams.periodEnd newLock)
            (PeriodLock.periodStart lock, PeriodLock.periodEnd lock) False)"
proof -
  let ?Q = "\<lambda>lock.
      ((truthy (CreateLockParams.projectId newLock) \<and>
          TimeLock.projectId lock = CreateLockParams.projectId newLock) \<or>
       (truthy (CreateLockParams.clientId newLock) \<and>
          TimeLock.clientId lock = CreateLockParams.clientId newLock)) \<and>
      areIntervalsOverlapping
        (CreateLockParams.periodStart newLock, CreateLockParams.periodEnd newLock)
        (PeriodLock.periodStart lock, PeriodLock.periodEnd lock) False"
  let ?act = "filter (\<lambda>lock. PeriodLock.isActive lock) existing"
  have r: "validateLockOverlap newLock existing =
      (case find ?Q ?act of
         Some lock \<Rightarrow>
           Inl (ConflictError (PeriodLock.periodStart lock) (PeriodLock.periodEnd lock))
       | None \<Rightarrow> Inr ())"
    by (simp add: validateLockOverlap_def)
  have "validateLockOverlap newLock existing = Inr () \<longleftrightarrow> find ?Q ?act = None"
    unfolding r by (cases "find ?Q ?act") simp_all
  also have "\<dots> \<longleftrightarrow> \<not> (\<exists>lock \<in> set existing. PeriodLock.isActive lock \<and> ?Q lock)"
    unfolding find_None_iff by auto
  finally show ?thesis .
qed

lemma validateLockOverlap_cases:
  "validateLockOverlap newLock existing = Inr () \<or>
   (\<exists>lock \<in> set existing.
      validateLockOverlap newLock existing =
        Inl (ConflictError (PeriodLock.periodStart lock) (PeriodLock.periodEnd lock)))"
  by (auto simp: validateLockOverlap_def split: option.splits dest!: find_Some_holds)

text \<open>
  Claim C7.  \<^verbatim>\<open>validateLockOverlap(newLock, existingLocks)\<close> throws a
  \<^verbatim>\<open>ConflictError\<close> exactly when some existing lock is active, has the scope of the
  candidate (the candidate names a project and the lock has that project, or the
  candidate names a client and the lock has that client) and overlaps the candidate's
  period under exclusive bounds; otherwise it returns normally.  (A project or client
  \<^emph>\<open>named\<close> is a truthy value: present and not the empty string.  The overlap is the
  library's strict test on the ordered end points.)  In particular, with periods given
  in order, existing locks that only touch the candidate at a boundary never raise, and
  neither do locks that are inactive or of a different scope, whatever their periods.
\<close>

theorem validateLockOverlap_conflict:
  "((\<exists>a b. validateLockOverlap newLock existing = Inl (ConflictError a b)) \<longleftrightarrow>
      (\<exists>lock \<in> set existing. PeriodLock.isActive lock \<and>
          ((truthy (CreateLockParams.projectId newLock) \<and>
              TimeLock.projectId lock = CreateLockParams.projectId newLock) \<or>
           (truthy (CreateLockParams.clientId newLock) \<and>
              TimeLock.clientId lock = CreateLockParams.clientId newLock)) \<and>
          min (CreateLockParams.periodStart newLock) (CreateLockParams.periodEnd newLock)
            < max (PeriodLock.periodStart lock) (PeriodLock.periodEnd lock) \<and>
          min (PeriodLock.periodStart lock) (PeriodLock.periodEnd lock)
            < max (CreateLockParams.periodStart newLock) (CreateLockParams.periodEnd newLock)))
   \<and> ((\<nexists>a b. validateLockOverlap newLock existing = Inl (ConflictError a b)) \<longleftrightarrow>
        validateLockOverlap newLock existing = Inr ())
   \<and> (CreateLockParams.periodStart newLock \<le> CreateLockParams.periodEnd newLock \<and>
        (\<forall>lock \<in> set existing.
           PeriodLock.periodStart lock \<le> PeriodLock.periodEnd lock \<and>
           (PeriodLock.periodEnd lock = CreateLockParams.periodStart newLock \<or>
            CreateLockParams.periodEnd newLock = PeriodLock.periodStart lock)) \<longrightarrow>
        validateLockOverlap newLock existing = Inr ())
   \<and> ((\<forall>lock \<in> set existing. \<not> PeriodLock.isActive lock \<or>
          \<not> ((truthy (CreateLockParams.projectId newLock) \<and>
                TimeLock.projectId lock = CreateLockParams.projectId newLock) \<or>
              (truthy (CreateLockParams.clientId newLock) \<and>
                TimeLock.clientId lock = CreateLockParams.clientId newLock))) \<longrightarrow>
        validateLockOverlap newLock existing = Inr ())"
proof (intro conjI impI)
  have c: "(\<nexists>a b. validateLockOverlap newLock existing = Inl (ConflictError a b)) \<longleftrightarrow>
        validateLockOverlap newLock existing = Inr ()"
    using validateLockOverlap_cases [of newLock existing] by auto
  then show "(\<nexists>a b. validateLockOverlap newLock existing = Inl (ConflictError a b)) \<longleftrightarrow>
        validateLockOverlap newLock existing = Inr ()" .
  from c show "(\<exists>a b. validateLockOverlap newLock existing = Inl (ConflictError a b)) \<longleftrightarrow>
      (\<exists>lock \<in> set existing. PeriodLock.isActive lock \<and>
          ((truthy (CreateLockParams.projectId newLock) \<and>
              TimeLock.projectId lock = CreateLockParams.projectId newLock) \<or>
           (truthy (CreateLockParams.clientId newLock) \<and>
              TimeLock.clientId lock = CreateLockParams.clientId newLock)) \<and>
          min (CreateLockParams.periodStart newLock) (CreateLockParams.periodEnd newLock)
            < max (PeriodLock.periodStart lock) (PeriodLock.periodEnd lock) \<and>
          min (PeriodLock.periodStart lock) (PeriodLock.periodEnd lock)
            < max (CreateLockParams.periodStart newLock) (CreateLockParams.periodEnd newLock))"
    unfolding validateLockOverlap_Inr_iff areIntervalsOverlapping_exclusive by blast
next
  assume "CreateLockParams.periodStart newLock \<le> CreateLockParams.periodEnd newLock \<and>
        (\<forall>lock \<in> set existing.
           PeriodLock.periodStart lock \<le> PeriodLock.periodEnd lock \<and>
           (PeriodLock.periodEnd lock = CreateLockParams.periodStart newLock \<or>
            CreateLockParams.periodEnd newLock = PeriodLock.periodStart lock))"
  then show "validateLockOverlap newLock existing = Inr ()"
    unfolding validateLockOverlap_Inr_iff areIntervalsOverlapping_exclusive
    by (auto simp: min_def max_def)
next
  assume "\<forall>lock \<in> set existing. \<not> PeriodLock.isActive lock \<or>
          \<not> ((truthy (CreateLockParams.projectId newLock) \<and>
                TimeLock.projectId lock = CreateLockParams.projectId newLock) \<or>
              (truthy (CreateLockParams.clientId newLock) \<and>
                TimeLock.clientId lock = CreateLockParams.clientId newLock))"
  then show "validateLockOverlap newLock existing = Inr ()"
    unfolding validateLockOverlap_Inr_iff by blast
qed

theorem validateLockOverlap_conflict_witness:
  "(\<exists>a b. validateLockOverlap
       \<lparr>CreateLockParams.projectId = Some ''project-1'', clientId = None,
        periodStart = 1710460800000, periodEnd = 1713139200000,
        reason = ''Test'', lockedBy = ''admin-1''\<rparr> [sampleLock] = Inl (ConflictError a b))
   \<and> validateLockOverlap
       \<lparr>CreateLockParams.projectId = Some ''project-1'', clientId = None,
        periodStart = 1711843200000, periodEnd = 1714435200000,
        reason = ''April closing'', lockedBy = ''admin-1''\<rparr> [sampleLock] = Inr ()
   \<and> validateLockOverlap
       \<lparr>CreateLockParams.projectId = Some ''project-2'', clientId = None,
        periodStart = 1710460800000, periodEnd = 1713139200000,
        reason = ''Test'', lockedBy = ''admin-1''\<rparr> [sampleLock] = Inr ()"
proof -
  have k: "PeriodLock.isActive sampleLock" "PeriodLock.periodStart sampleLock = 1709251200000"
    "PeriodLock.periodEnd sampleLock = 1711843200000"
    "TimeLock.projectId sampleLock = Some ''project-1''" "TimeLock.clientId sampleLock = None"
    by (simp_all add: sampleLock_def)
  have 1: "\<exists>a b. validateLockOverlap
       \<lparr>CreateLockParams.projectId = Some ''project-1'', clientId = None,
        periodStart = 1710460800000, periodEnd = 1713139200000,
        reason = ''Test'', lockedBy = ''admin-1''\<rparr> [sampleLock] = Inl (ConflictError a b)"
    using validateLockOverlap_conflict
      [where existing = "[sampleLock]" and newLock =
        "\<lparr>CreateLockParams.projectId = Some ''project-1'', clientId = None,
          periodStart = 1710460800000, periodEnd = 1713139200000,
          reason = ''Test'', lockedBy = ''admin-1''\<rparr>"] k
    by (simp add: truthy_def)
  have 2: "validateLockOverlap
       \<lparr>CreateLockParams.projectId = Some ''project-1'', clientId = None,
        periodStart = 1711843200000, periodEnd = 1714435200000,
        reason = ''April closing'', lockedBy = ''admin-1''\<rparr> [sampleLock] = Inr ()"
    using validateLockOverlap_conflict
      [where existing = "[sampleLock]" and newLock =
        "\<lparr>CreateLockParams.projectId = Some ''project-1'', clientId = None,
          periodStart = 1711843200000, periodEnd = 1714435200000,
          reason = ''April closing'', lockedBy = ''admin-1''\<rparr>"] k
    by simp
  have 3: "validateLockOverlap
       \<lparr>CreateLockParams.projectId = Some ''project-2'', clientId = None,
        periodStart = 1710460800000, periodEnd = 1713139200000,
        reason = ''Test'', lockedBy = ''admin-1''\<rparr> [sampleLock] = Inr ()"
    using validateLockOverlap_conflict
      [where existing = "[sampleLock]" and newLock =
        "\<lparr>CreateLockParams.projectId = Some ''project-2'', clientId = None,
          periodStart = 1710460800000, periodEnd = 1713139200000,
          reason = ''Test'', lockedBy = ''admin-1''\<rparr>"] k
    by (simp add: truthy_def)
  from 1 2 3 show ?thesis by simp
qed

subsection \<open>Inclusive lock bounds against exclusive entry bounds\<close>

text \<open>
  Claim C8.  Take an active lock whose scope matches the entry.  If the entry's interval
  meets the lock's period at a boundary instant (the entry starts exactly at
  \<open>periodEnd\<close>, or ends exactly at \<open>periodStart\<close>), \<^verbatim>\<open>checkEntryLockConflict\<close>
  reports the lock: it is the result for the list holding that lock alone, and some
  conflict is reported for every list that contains it.  Two entry intervals that
  merely touch (one's \<open>endAt\<close> is the other's \<open>startAt\<close>) do not overlap for
  \<^verbatim>\<open>detectOverlap\<close>.  Intervals that share an interior instant \<open>t\<close> overlap under
  both tests.  All intervals are given in order (start not after end).
\<close>

theorem boundary_asymmetry:
  fixes e a b :: TimeEntry and lock :: TimeLock
  shows
  "(PeriodLock.isActive lock \<and>
      ((truthy (TimeLock.projectId lock) \<and>
          TimeLock.projectId lock = Some (TimeEntry.projectId e)) \<or>
       (truthy (TimeLock.clientId lock) \<and>
          TimeLock.clientId lock = Some (TimeEntry.clientId e))) \<and>
      TimeEntry.startAt e \<le> TimeEntry.endAt e \<and>
      PeriodLock.periodStart lock \<le> PeriodLock.periodEnd lock \<and>
      (TimeEntry.startAt e = PeriodLock.periodEnd lock \<or>
       TimeEntry.endAt e = PeriodLock.periodStart lock) \<longrightarrow>
      checkEntryLockConflict e [lock] = Some lock \<and>
      (lock \<in> set lockList \<longrightarrow> checkEntryLockConflict e lockList \<noteq> None))
   \<and> (TimeEntry.startAt a \<le> TimeEntry.endAt a \<and> TimeEntry.startAt b \<le> TimeEntry.endAt b \<and>
        (TimeEntry.endAt a = TimeEntry.startAt b \<or> TimeEntry.endAt b = TimeEntry.startAt a) \<longrightarrow>
        \<not> detectOverlap a b)
   \<and> (TimeEntry.startAt a < t \<and> t < TimeEntry.endAt a \<and>
        TimeEntry.startAt b < t \<and> t < TimeEntry.endAt b \<longrightarrow>
        detectOverlap a b)
   \<and> (PeriodLock.isActive lock \<and>
      ((truthy (TimeLock.projectId lock) \<and>
          TimeLock.projectId lock = Some (TimeEntry.projectId e)) \<or>
       (truthy (TimeLock.clientId lock) \<and>
          TimeLock.clientId lock = Some (TimeEntry.clientId e))) \<and>
      TimeEntry.startAt e < t \<and> t < TimeEntry.endAt e \<and>
      PeriodLock.periodStart lock < t \<and> t < PeriodLock.periodEnd lock \<longrightarrow>
      checkEntryLockConflict e [lock] = Some lock \<and>
      (lock \<in> set lockList \<longrightarrow> checkEntryLockConflict e lockList \<noteq> None))"
proof -
  let ?Q = "\<lambda>l. ((truthy (TimeLock.projectId l) \<and>
               TimeLock.projectId l = Some (TimeEntry.projectId e)) \<or>
            (truthy (TimeLock.clientId l) \<and>
               TimeLock.clientId l = Some (TimeEntry.clientId e))) \<and>
           areIntervalsOverlapping (TimeEntry.startAt e, TimeEntry.endAt e)
             (PeriodLock.periodStart l, PeriodLock.periodEnd l) True"
  have found: "checkEntryLockConflict e [lock] = Some lock \<and>
      (lock \<in> set lockList \<longrightarrow> checkEntryLockConflict e lockList \<noteq> None)"
    if "PeriodLock.isActive lock" and "?Q lock"
  proof
    from that show "checkEntryLockConflict e [lock] = Some lock"
      by (simp add: checkEntryLockConflict_def)
    show "lock \<in> set lockList \<longrightarrow> checkEntryLockConflict e lockList \<noteq> None"
    proof
      assume "lock \<in> set lockList"
      with that have "\<exists>x. x \<in> set (filter (\<lambda>l. PeriodLock.isActive l) lockList) \<and> ?Q x"
        by auto
      then have "find ?Q (filter (\<lambda>l. PeriodLock.isActive l) lockList) \<noteq> None"
        unfolding find_None_iff by blast
      then show "checkEntryLockConflict e lockList \<noteq> None"
        by (simp add: checkEntryLockConflict_def)
    qed
  qed
  show ?thesis
  proof (intro conjI impI)
    assume h: "PeriodLock.isActive lock \<and>
      ((truthy (TimeLock.projectId lock) \<and>
          TimeLock.projectId lock = Some (TimeEntry.projectId e)) \<or>
       (truthy (TimeLock.clientId lock) \<and>
          TimeLock.clientId lock = Some (TimeEntry.clientId e))) \<and>
      TimeEntry.startAt e \<le> TimeEntry.endAt e \<and>
      PeriodLock.periodStart lock \<le> PeriodLock.periodEnd lock \<and>
      (TimeEntry.startAt e = PeriodLock.periodEnd lock \<or>
       TimeEntry.endAt e = PeriodLock.periodStart lock)"
    then have "?Q lock"
      unfolding areIntervalsOverlapping_inclusive by (auto simp: min_def max_def)
    with h found show "checkEntryLockConflict e [lock] = Some lock"
      and "lock \<in> set lockList \<Longrightarrow> checkEntryLockConflict e lockList \<noteq> None"
      by blast+
  next
    assume "TimeEntry.startAt a \<le> TimeEntry.endAt a \<and> TimeEntry.startAt b \<le> TimeEntry.endAt b \<and>
        (TimeEntry.endAt a = TimeEntry.startAt b \<or> TimeEntry.endAt b = TimeEntry.startAt a)"
    then show "\<not> detectOverlap a b"
      unfolding detectOverlap_def areIntervalsOverlapping_exclusive
      by (auto simp: min_def max_def)
  next
    assume "TimeEntry.startAt a < t \<and> t < TimeEntry.endAt a \<and>
        TimeEntry.startAt b < t \<and> t < TimeEntry.endAt b"
    then show "detectOverlap a b"
      unfolding detectOverlap_def areIntervalsOverlapping_exclusive
      by (auto simp: min_def max_def)
  next
    assume h: "PeriodLock.isActive lock \<and>
      ((truthy (TimeLock.projectId lock) \<and>
          TimeLock.projectId lock = Some (TimeEntry.projectId e)) \<or>
       (truthy (TimeLock.clientId lock) \<and>
          TimeLock.clientId lock = Some (TimeEntry.clientId e))) \<and>
      TimeEntry.startAt e < t \<and> t < TimeEntry.endAt e \<and>
      PeriodLock.periodStart lock < t \<and> t < PeriodLock.periodEnd lock"
    then have "?Q lock"
      unfolding areIntervalsOverlapping_inclusive by (auto simp: min_def max_def)
    with h found show "checkEntryLockConflict e [lock] = Some lock"
      and "lock \<in> set lockList \<Longrightarrow> checkEntryLockConflict e lockList \<noteq> None"
      by blast+
  qed
qed

theorem boundary_asymmetry_witness:
  "checkEntryLockConflict
     (sampleEntry\<lparr>TimeEntry.startAt := 1711843200000, TimeEntry.endAt := 1711872000000\<rparr>)
     [sampleLock] = Some sampleLock
   \<and> \<not> detectOverlap
       (sampleEntry\<lparr>TimeEntry.startAt := 1705309200000, TimeEntry.endAt := 1705316400000\<rparr>)
       (sampleEntry\<lparr>TimeEntry.startAt := 1705316400000, TimeEntry.endAt := 1705320000000\<rparr>)
   \<and> detectOverlap
       (sampleEntry\<lparr>TimeEntry.startAt := 1705309200000, TimeEntry.endAt := 1705316400000\<rparr>)
       (sampleEntry\<lparr>TimeEntry.startAt := 1705312800000, TimeEntry.endAt := 1705320000000\<rparr>)
   \<and> checkEntryLockConflict sampleEntry [sampleLock] = Some sampleLock"
proof -
  have k: "PeriodLock.isActive sampleLock" "PeriodLock.periodStart sampleLock = 1709251200000"
    "PeriodLock.periodEnd sampleLock = 1711843200000"
    "TimeLock.projectId sampleLock = Some ''project-1''"
    by (simp_all add: sampleLock_def)
  have s: "TimeEntry.projectId sampleEntry = ''project-1''"
    "TimeEntry.startAt sampleEntry = 1710061200000"
    "TimeEntry.endAt sampleEntry = 1710090000000"
    by (simp_all add: sampleEntry_def)
  have 1: "checkEntryLockConflict
     (sampleEntry\<lparr>TimeEntry.startAt := 1711843200000, TimeEntry.endAt := 1711872000000\<rparr>)
     [sampleLock] = Some sampleLock"
    using boundary_asymmetry
      [where lock = sampleLock and lockList = "[]" and e =
        "sampleEntry\<lparr>TimeEntry.startAt := 1711843200000, TimeEntry.endAt := 1711872000000\<rparr>"]
      k s
    by (simp add: truthy_def)
  have 2: "\<not> detectOverlap
       (sampleEntry\<lparr>TimeEntry.startAt := 1705309200000, TimeEntry.endAt := 1705316400000\<rparr>)
       (sampleEntry\<lparr>TimeEntry.startAt := 1705316400000, TimeEntry.endAt := 1705320000000\<rparr>)"
    using boundary_asymmetry
      [where a = "sampleEntry\<lparr>TimeEntry.startAt := 1705309200000,
                    TimeEntry.endAt := 1705316400000\<rparr>"
         and b = "sampleEntry\<lparr>TimeEntry.startAt := 1705316400000,
                    TimeEntry.endAt := 1705320000000\<rparr>"]
    by simp
  have 3: "detectOverlap
       (sampleEntry\<lparr>TimeEntry.startAt := 1705309200000, TimeEntry.endAt := 1705316400000\<rparr>)
       (sampleEntry\<lparr>TimeEntry.startAt := 1705312800000, TimeEntry.endAt := 1705320000000\<rparr>)"
    using boundary_asymmetry
      [where a = "sampleEntry\<lparr>TimeEntry.startAt := 1705309200000,
                    TimeEntry.endAt := 1705316400000\<rparr>"
         and b = "sampleEntry\<lparr>TimeEntry.startAt := 1705312800000,
                    TimeEntry.endAt := 1705320000000\<rparr>"
         and t = 1705314600000]
    by simp
  have 4: "checkEntryLockConflict sampleEntry [sampleLock] = Some sampleLock"
    using boundary_asymmetry
      [where lock = sampleLock and lockList = "[]" and e = sampleEntry and t = 1710061200001]
      k s
    by (simp add: truthy_def)
  from 1 2 3 4 show ?thesis by simp
qed

subsection \<open>Rate resolution by precedence\<close>

text \<open>
  The head of the stable sort by descending \<open>effectiveFrom\<close> is a card of the list
  with the greatest \<open>effectiveFrom\<close>; there is none exactly for the empty list.
\<close>

lemma latestFirst_Nil: "latestFirst [] = None"
  by (simp add: latestFirst_def)

lemma latestFirst_None_iff: "latestFirst cards = None \<longleftrightarrow> cards = []"
proof
  assume "latestFirst cards = None"
  then have "sort_key (\<lambda>c. - RateCard.effectiveFrom c) cards = []"
    by (simp add: latestFirst_def split: list.splits)
  then have "set (sort_key (\<lambda>c. - RateCard.effectiveFrom c) cards) = {}" by simp
  then show "cards = []" by simp
qed (simp add: latestFirst_def)

lemma latestFirst_Some:
  assumes "latestFirst cards = Some r"
  shows "r \<in> set cards \<and> (\<forall>c \<in> set cards. RateCard.effectiveFrom c \<le> RateCard.effectiveFrom r)"
proof -
  let ?k = "\<lambda>c. - RateCard.effectiveFrom c"
  from assms obtain rest where s: "sort_key ?k cards = r # rest"
    by (auto simp: latestFirst_def split: list.splits)
  have "set (sort_key ?k cards) = set cards" by simp
  with s have m: "set cards = insert r (set rest)" by simp
  have "sorted (map ?k (sort_key ?k cards))" by (rule sorted_sort_key)
  with s have "\<forall>c \<in> set rest. ?k r \<le> ?k c" by simp
  with m show ?thesis by auto
qed

text \<open>
  Claim C3.  Let \<open>A\<close> be the cards that are active and effective at \<open>atDate\<close>
  (\<open>effectiveFrom \<le> atDate\<close>, and \<open>atDate \<le> effectiveTo\<close> when there is an
  \<open>effectiveTo\<close>); \<open>P\<close> the cards of \<open>A\<close> with the entry's project; \<open>C\<close> those with
  the entry's client; \<open>D\<close> those with the entry's developer and neither a project nor a
  client set (unset or the empty string: the code tests \<^verbatim>\<open>!card.projectId\<close>).
  \<^verbatim>\<open>resolveEffectiveRate\<close> returns a card of \<open>P\<close> with the latest \<open>effectiveFrom\<close> of
  \<open>P\<close> whenever \<open>P\<close> is not empty, whatever \<open>C\<close> and \<open>D\<close> hold and however recent
  their cards are; otherwise a latest card of \<open>C\<close> when \<open>C\<close> is not empty; otherwise
  a latest card of \<open>D\<close> when \<open>D\<close> is not empty; otherwise null.  The result is thus
  always a card of \<open>A\<close> or null.
\<close>

theorem resolveEffectiveRate_precedence:
  fixes entry :: TimeEntry and rateCards :: "'num RateCard list" and atDate :: Date
  defines "A \<equiv> {c \<in> set rateCards. RateCard.isActive c \<and> RateCard.effectiveFrom c \<le> atDate \<and>
                   (\<forall>t. RateCard.effectiveTo c = Some t \<longrightarrow> atDate \<le> t)}"
  defines "P \<equiv> {c \<in> A. RateCard.projectId c = Some (TimeEntry.projectId entry)}"
  defines "C \<equiv> {c \<in> A. RateCard.clientId c = Some (TimeEntry.clientId entry)}"
  defines "D \<equiv> {c \<in> A. RateCard.developerId c = Some (TimeEntry.developerId entry) \<and>
                   \<not> truthy (RateCard.projectId c) \<and> \<not> truthy (RateCard.clientId c)}"
  shows "(P \<noteq> {} \<longrightarrow>
            (\<exists>r \<in> P. resolveEffectiveRate entry rateCards atDate = Some r \<and>
                (\<forall>c \<in> P. RateCard.effectiveFrom c \<le> RateCard.effectiveFrom r)))
       \<and> (P = {} \<and> C \<noteq> {} \<longrightarrow>
            (\<exists>r \<in> C. resolveEffectiveRate entry rateCards atDate = Some r \<and>
                (\<forall>c \<in> C. RateCard.effectiveFrom c \<le> RateCard.effectiveFrom r)))
       \<and> (P = {} \<and> C = {} \<and> D \<noteq> {} \<longrightarrow>
            (\<exists>r \<in> D. resolveEffectiveRate entry rateCards atDate = Some r \<and>
                (\<forall>c \<in> D. RateCard.effectiveFrom c \<le> RateCard.effectiveFrom r)))
       \<and> (P = {} \<and> C = {} \<and> D = {} \<longrightarrow> resolveEffectiveRate entry rateCards atDate = None)"
proof -
  let ?act = "filter (\<lambda>card.
            if \<not> RateCard.isActive card then False
            else if RateCard.effectiveFrom card > atDate then False
            else if (case RateCard.effectiveTo card of None \<Rightarrow> False | Some t \<Rightarrow> t < atDate)
            then False
            else True) rateCards"
  let ?Pl = "filter (\<lambda>card. RateCard.projectId card = Some (TimeEntry.projectId entry)) ?act"
  let ?Cl = "filter (\<lambda>card. RateCard.clientId card = Some (TimeEntry.clientId entry)) ?act"
  let ?Dl = "filter (\<lambda>card.
                 RateCard.developerId card = Some (TimeEntry.developerId entry) \<and>
                 \<not> truthy (RateCard.projectId card) \<and>
                 \<not> truthy (RateCard.clientId card)) ?act"
  have A: "set ?act = A"
    unfolding A_def by (auto split: option.splits)
  have P: "set ?Pl = P" and C: "set ?Cl = C" and D: "set ?Dl = D"
    unfolding P_def C_def D_def A [symmetric] by auto
  have r: "resolveEffectiveRate entry rateCards atDate =
     (case latestFirst ?Pl of
        Some rate \<Rightarrow> Some rate
      | None \<Rightarrow> (case latestFirst ?Cl of Some rate \<Rightarrow> Some rate | None \<Rightarrow> latestFirst ?Dl))"
    by (simp only: resolveEffectiveRate_def Let_def)
  have pick: "\<exists>r \<in> set xs. latestFirst xs = Some r \<and>
                 (\<forall>c \<in> set xs. RateCard.effectiveFrom c \<le> RateCard.effectiveFrom r)"
    if "set xs \<noteq> {}" for xs :: "'num RateCard list"
  proof -
    from that have "latestFirst xs \<noteq> None" by (simp add: latestFirst_None_iff)
    then obtain r where "latestFirst xs = Some r" by auto
    with latestFirst_Some [OF this] show ?thesis by auto
  qed
  have none: "latestFirst xs = None" if "set xs = {}" for xs :: "'num RateCard list"
    using that by (simp add: latestFirst_None_iff)
  show ?thesis
  proof (intro conjI impI)
    assume "P \<noteq> {}"
    with pick [of ?Pl] P obtain x where "x \<in> P" "latestFirst ?Pl = Some x"
      "\<forall>c \<in> P. RateCard.effectiveFrom c \<le> RateCard.effectiveFrom x"
      by auto
    then show "\<exists>r \<in> P. resolveEffectiveRate entry rateCards atDate = Some r \<and>
                (\<forall>c \<in> P. RateCard.effectiveFrom c \<le> RateCard.effectiveFrom r)"
      unfolding r by auto
  next
    assume h: "P = {} \<and> C \<noteq> {}"
    with none [of ?Pl] P have n: "latestFirst ?Pl = None" by simp
    from h pick [of ?Cl] C obtain x where "x \<in> C" "latestFirst ?Cl = Some x"
      "\<forall>c \<in> C. RateCard.effectiveFrom c \<le> RateCard.effectiveFrom x"
      by auto
    with n show "\<exists>r \<in> C. resolveEffectiveRate entry rateCards atDate = Some r \<and>
                (\<forall>c \<in> C. RateCard.effectiveFrom c \<le> RateCard.effectiveFrom r)"
      unfolding r by auto
  next
    assume h: "P = {} \<and> C = {} \<and> D \<noteq> {}"
    with none [of ?Pl] none [of ?Cl] P C
    have n: "latestFirst ?Pl = None" "latestFirst ?Cl = None" by simp_all
    from h pick [of ?Dl] D obtain x where "x \<in> D" "latestFirst ?Dl = Some x"
      "\<forall>c \<in> D. RateCard.effectiveFrom c \<le> RateCard.effectiveFrom x"
      by auto
    with n show "\<exists>r \<in> D. resolveEffectiveRate entry rateCards atDate = Some r \<and>
                (\<forall>c \<in> D. RateCard.effectiveFrom c \<le> RateCard.effectiveFrom r)"
      unfolding r by auto
  next
    assume h: "P = {} \<and> C = {} \<and> D = {}"
    with none [of ?Pl] none [of ?Cl] none [of ?Dl] P C D
    have "latestFirst ?Pl = None" "latestFirst ?Cl = None" "latestFirst ?Dl = None"
      by simp_all
    then show "resolveEffectiveRate entry rateCards atDate = None"
      unfolding r by simp
  qed
qed

theorem resolveEffectiveRate_precedence_witness:
  "(\<exists>r. resolveEffectiveRate sampleEntry sampleRateCards 1710496800000 = Some r \<and>
        RateCard.projectId r = Some ''project-1'')
   \<and> (\<exists>r. resolveEffectiveRate sampleEntry sampleRateCards 1704844800000 = Some r \<and>
        RateCard.developerId r = Some ''dev-1'' \<and> RateCard.projectId r = None)"
proof -
  have s: "TimeEntry.projectId sampleEntry = ''project-1''"
    "TimeEntry.clientId sampleEntry = ''client-1''"
    "TimeEntry.developerId sampleEntry = ''dev-1''"
    by (simp_all add: sampleEntry_def)
  let ?A = "\<lambda>d. {c \<in> set sampleRateCards. RateCard.isActive c \<and> RateCard.effectiveFrom c \<le> d \<and>
                   (\<forall>t. RateCard.effectiveTo c = Some t \<longrightarrow> d \<le> t)}"
  have "sampleRateCards ! 2 \<in>
          {c \<in> ?A 1710496800000. RateCard.projectId c = Some ''project-1''}"
    by (simp add: sampleRateCards_def)
  then have p: "{c \<in> ?A 1710496800000. RateCard.projectId c = Some ''project-1''} \<noteq> {}"
    by blast
  have "\<exists>r \<in> {c \<in> ?A 1710496800000. RateCard.projectId c = Some ''project-1''}.
          resolveEffectiveRate sampleEntry sampleRateCards 1710496800000 = Some r"
    using resolveEffectiveRate_precedence
      [where entry = sampleEntry and rateCards = sampleRateCards and atDate = 1710496800000]
      p s
    by auto
  then have 1: "\<exists>r. resolveEffectiveRate sampleEntry sampleRateCards 1710496800000 = Some r \<and>
        RateCard.projectId r = Some ''project-1''"
    by auto
  have np: "{c \<in> ?A 1704844800000. RateCard.projectId c = Some ''project-1''} = {}"
    and nc: "{c \<in> ?A 1704844800000. RateCard.clientId c = Some ''client-1''} = {}"
    by (auto simp: sampleRateCards_def)
  have "sampleRateCards ! 0 \<in>
          {c \<in> ?A 1704844800000. RateCard.developerId c = Some ''dev-1'' \<and>
             \<not> truthy (RateCard.projectId c) \<and> \<not> truthy (RateCard.clientId c)}"
    by (simp add: sampleRateCards_def truthy_def)
  then have d: "{c \<in> ?A 1704844800000. RateCard.developerId c = Some ''dev-1'' \<and>
             \<not> truthy (RateCard.projectId c) \<and> \<not> truthy (RateCard.clientId c)} \<noteq> {}"
    by blast
  have "\<exists>r \<in> {c \<in> ?A 1704844800000. RateCard.developerId c = Some ''dev-1'' \<and>
             \<not> truthy (RateCard.projectId c) \<and> \<not> truthy (RateCard.clientId c)}.
          resolveEffectiveRate sampleEntry sampleRateCards 1704844800000 = Some r"
    using resolveEffectiveRate_precedence
      [where entry = sampleEntry and rateCards = sampleRateCards and atDate = 1704844800000]
      np nc d s
    by auto
  then obtain r where r: "resolveEffectiveRate sampleEntry sampleRateCards 1704844800000 = Some r"
    "RateCard.developerId r = Some ''dev-1''" "\<not> truthy (RateCard.projectId r)"
    "r \<in> set sampleRateCards"
    by auto
  from r(3,4) have "RateCard.projectId r = None"
    by (auto simp: sampleRateCards_def truthy_def)
  with r have 2: "\<exists>r. resolveEffectiveRate sampleEntry sampleRateCards 1704844800000 = Some r \<and>
        RateCard.developerId r = Some ''dev-1'' \<and> RateCard.projectId r = None"
    by auto
  from 1 2 show ?thesis by simp
qed

subsection \<open>Rounding to binary64\<close>

text \<open>
  The exponent found by \<open>binaryExponent\<close> is the binary exponent, so \<open>binary64 x\<close> is a
  multiple of the quantum of \<open>x\<close> at most half a quantum away from \<open>x\<close>; in the normal
  range that is a relative error of at most \<open>2\<^sup>-\<^sup>5\<^sup>3\<close>.
\<close>

lemma pow2_pos: "0 < pow2 e"
  by (simp add: pow2_def)

lemma pow2_nat: "0 \<le> e \<Longrightarrow> pow2 e = 2 ^ nat e"
  by (simp add: pow2_def)

lemma pow2_neg: "e \<le> 0 \<Longrightarrow> pow2 e = 1 / 2 ^ nat (- e)"
  by (cases "e = 0") (simp_all add: pow2_def)

lemma binaryExponent_bounds:
  assumes "0 < x"
  shows "pow2 (binaryExponent x) \<le> x \<and> x < pow2 (binaryExponent x + 1)"
proof (cases "1 \<le> x")
  case True
  let ?n = "\<lfloor>x\<rfloor>"
  from True have n: "0 < ?n" by simp
  from bitlen_bounds [OF n]
  have b: "2 ^ nat (bitlen ?n - 1) \<le> ?n" "?n < 2 ^ nat (bitlen ?n)" by simp_all
  from n have k: "1 \<le> bitlen ?n"
    using bitlen_eq_zero_iff [of ?n] bitlen_nonneg [of ?n] by linarith
  have e: "binaryExponent x = bitlen ?n - 1" using True by (simp add: binaryExponent_def)
  have "(of_int (2 ^ nat (bitlen ?n - 1)) :: rat) \<le> of_int ?n"
    using b(1) by (simp only: of_int_le_iff)
  moreover have "of_int ?n \<le> x" by (rule of_int_floor_le)
  moreover have "(of_int (2 ^ nat (bitlen ?n - 1)) :: rat) = 2 ^ nat (bitlen ?n - 1)" by simp
  ultimately have "2 ^ nat (bitlen ?n - 1) \<le> x" by linarith
  then have lo: "pow2 (binaryExponent x) \<le> x"
    using k by (simp add: e pow2_nat)
  from b(2) have "?n + 1 \<le> 2 ^ nat (bitlen ?n)" by simp
  then have "(of_int (?n + 1) :: rat) \<le> of_int (2 ^ nat (bitlen ?n))"
    by (simp only: of_int_le_iff)
  moreover have "x < of_int (?n + 1)" by linarith
  moreover have "(of_int (2 ^ nat (bitlen ?n)) :: rat) = 2 ^ nat (bitlen ?n)" by simp
  ultimately have "x < 2 ^ nat (bitlen ?n)" by linarith
  then have hi: "x < pow2 (binaryExponent x + 1)"
    using k by (simp add: e pow2_nat)
  from lo hi show ?thesis ..
next
  case False
  with assms have x: "0 < x" "x < 1" by simp_all
  let ?y = "1 / x"
  let ?m = "\<lceil>?y\<rceil>"
  from x have y: "1 < ?y" by simp
  then have m: "0 < ?m - 1" by linarith
  let ?k = "bitlen (?m - 1)"
  from bitlen_bounds [OF m]
  have b: "2 ^ nat (?k - 1) \<le> ?m - 1" "?m - 1 < 2 ^ nat ?k" by simp_all
  from m have k: "1 \<le> ?k"
    using bitlen_eq_zero_iff [of "?m - 1"] bitlen_nonneg [of "?m - 1"] by linarith
  have e: "binaryExponent x = - ?k" using False by (simp add: binaryExponent_def)
  from b(2) have "?m \<le> 2 ^ nat ?k" by simp
  then have "(of_int ?m :: rat) \<le> of_int (2 ^ nat ?k)" by (simp only: of_int_le_iff)
  moreover have "?y \<le> of_int ?m" by (rule le_of_int_ceiling)
  moreover have "(of_int (2 ^ nat ?k) :: rat) = 2 ^ nat ?k" by simp
  ultimately have "?y \<le> 2 ^ nat ?k" by linarith
  with x have "1 / 2 ^ nat ?k \<le> x"
    by (simp add: field_simps)
  then have lo: "pow2 (binaryExponent x) \<le> x"
    using k by (simp add: e pow2_neg)
  have "(of_int (2 ^ nat (?k - 1)) :: rat) \<le> of_int (?m - 1)"
    using b(1) by (simp only: of_int_le_iff)
  moreover have "of_int (?m - 1) < ?y" by linarith
  moreover have "(of_int (2 ^ nat (?k - 1)) :: rat) = 2 ^ nat (?k - 1)" by simp
  ultimately have "2 ^ nat (?k - 1) < ?y" by linarith
  with x have "x < 1 / 2 ^ nat (?k - 1)"
    by (simp add: field_simps)
  moreover have "pow2 (binaryExponent x + 1) = 1 / 2 ^ nat (?k - 1)"
    using k by (simp add: e pow2_neg)
  ultimately have hi: "x < pow2 (binaryExponent x + 1)" by simp
  from lo hi show ?thesis ..
qed

lemma roundTiesToEven_nearest:
  "\<bar>of_int (roundTiesToEven y) - y\<bar> \<le> 1 / 2"
proof -
  have "of_int \<lfloor>y\<rfloor> \<le> y" "y < of_int \<lfloor>y\<rfloor> + 1" by linarith+
  then show ?thesis
    unfolding roundTiesToEven_def Let_def by (auto simp: abs_le_iff)
qed

lemma roundTiesToEven_int: "roundTiesToEven (of_int k) = k"
  by (simp add: roundTiesToEven_def)

lemma binary64_nearest:
  assumes "x \<noteq> 0"
  shows "\<bar>binary64 x - x\<bar> \<le> pow2 (max (binaryExponent \<bar>x\<bar>) (- 1022) - 52) / 2"
proof -
  let ?q = "pow2 (max (binaryExponent \<bar>x\<bar>) (- 1022) - 52)"
  have q: "0 < ?q" by (rule pow2_pos)
  have "binary64 x - x = (of_int (roundTiesToEven (x / ?q)) - x / ?q) * ?q"
    using assms q by (simp add: binary64_def Let_def field_simps)
  then have "\<bar>binary64 x - x\<bar> = \<bar>of_int (roundTiesToEven (x / ?q)) - x / ?q\<bar> * ?q"
    using q by (simp add: abs_mult)
  also have "\<dots> \<le> 1 / 2 * ?q"
    using roundTiesToEven_nearest [of "x / ?q"] q by (intro mult_right_mono) simp_all
  finally show ?thesis by simp
qed

lemma pow2_power_int: "pow2 e = 2 powi e"
  by (simp add: pow2_def power_int_def field_simps)

lemma pow2_shift: "pow2 (e - 52) = pow2 e / 2 ^ 52"
  unfolding pow2_power_int by (simp add: power_int_diff)

lemma binary64_relative_error:
  assumes "pow2 (- 1022) \<le> \<bar>x\<bar>"
  shows "\<bar>binary64 x - x\<bar> \<le> \<bar>x\<bar> / 2 ^ 53"
proof -
  from assms pow2_pos [of "- 1022"] have x: "0 < \<bar>x\<bar>" "x \<noteq> 0" by auto
  let ?e = "binaryExponent \<bar>x\<bar>"
  from binaryExponent_bounds [OF x(1)]
  have b: "pow2 ?e \<le> \<bar>x\<bar>" "\<bar>x\<bar> < pow2 (?e + 1)" by simp_all
  have "- 1022 \<le> ?e"
  proof (rule ccontr)
    assume "\<not> - 1022 \<le> ?e"
    then have "?e + 1 \<le> - 1022" by simp
    then have "pow2 (?e + 1) \<le> pow2 (- 1022)"
      unfolding pow2_power_int by (intro power_int_increasing) simp_all
    with b(2) assms show False by simp
  qed
  then have m: "max ?e (- 1022) = ?e" by simp
  from binary64_nearest [OF x(2)]
  have "\<bar>binary64 x - x\<bar> \<le> pow2 (?e - 52) / 2" by (simp only: m)
  also have "\<dots> = pow2 ?e / 2 ^ 53" by (simp add: pow2_shift)
  also have "\<dots> \<le> \<bar>x\<bar> / 2 ^ 53" using b(1) by (simp add: divide_right_mono)
  finally show ?thesis .
qed

text \<open>
  Some values: the doubles written \<^verbatim>\<open>0.1\<close> and \<^verbatim>\<open>10.33\<close>, small integers and halves
  (exact), and two ties above \<open>2\<^sup>5\<^sup>3\<close>.
\<close>

lemma binary64_examples:
  "binary64 (1 / 10) = 3602879701896397 / 36028797018963968"
  "binary64 (1033 / 100) = 5815273018842153 / 562949953421312"
  "binary64 (- (1033 / 100)) = - (5815273018842153 / 562949953421312)"
  "binary64 2 = 2" "binary64 300 = 300" "binary64 30000 = 30000" "binary64 (15 / 2) = 15 / 2"
  "binary64 (2 ^ 53 + 1) = 2 ^ 53" "binary64 (2 ^ 53 + 3) = 2 ^ 53 + 4"
  by code_simp+

subsection \<open>Costs of entries\<close>









end
